theory Spec2Isabelle
  imports Complex_Main
begin

section \<open>Numeric values\<close>

text \<open>
  The arrays of \<^verbatim>\<open>grouping_utils.py\<close> hold numpy float64 values. They are modelled as
  exact reals extended by the three special values the code depends on: the two
  infinities and NaN (the code tests \<^verbatim>\<open>np.isnan\<close>, and numpy divides by zero without
  raising). Rounding and overflow are not modelled, and zero carries no sign: a zero
  divisor is read as \<^verbatim>\<open>+0.0\<close>.
\<close>

datatype npfloat = Fin real | PInf | NInf | NaN

fun fneg :: "npfloat \<Rightarrow> npfloat" where
  "fneg (Fin a) = Fin (- a)"
| "fneg PInf = NInf"
| "fneg NInf = PInf"
| "fneg NaN = NaN"

fun fadd :: "npfloat \<Rightarrow> npfloat \<Rightarrow> npfloat" where
  "fadd (Fin a) (Fin b) = Fin (a + b)"
| "fadd NaN _ = NaN"
| "fadd _ NaN = NaN"
| "fadd PInf NInf = NaN"
| "fadd NInf PInf = NaN"
| "fadd PInf _ = PInf"
| "fadd _ PInf = PInf"
| "fadd NInf _ = NInf"
| "fadd _ NInf = NInf"

definition fsub :: "npfloat \<Rightarrow> npfloat \<Rightarrow> npfloat" where
  "fsub a b = fadd a (fneg b)"

fun fmul :: "npfloat \<Rightarrow> npfloat \<Rightarrow> npfloat" where
  "fmul (Fin a) (Fin b) = Fin (a * b)"
| "fmul NaN _ = NaN"
| "fmul _ NaN = NaN"
| "fmul PInf (Fin b) = (if b = 0 then NaN else if 0 < b then PInf else NInf)"
| "fmul NInf (Fin b) = (if b = 0 then NaN else if 0 < b then NInf else PInf)"
| "fmul (Fin a) PInf = (if a = 0 then NaN else if 0 < a then PInf else NInf)"
| "fmul (Fin a) NInf = (if a = 0 then NaN else if 0 < a then NInf else PInf)"
| "fmul PInf PInf = PInf"
| "fmul NInf NInf = PInf"
| "fmul PInf NInf = NInf"
| "fmul NInf PInf = NInf"

text \<open>
  numpy's true division: a finite value over zero is NaN when the value is zero and an
  infinity of its sign otherwise; no exception is raised.
\<close>

fun fdiv :: "npfloat \<Rightarrow> npfloat \<Rightarrow> npfloat" where
  "fdiv (Fin a) (Fin b) =
     (if b = 0 then (if a = 0 then NaN else if 0 < a then PInf else NInf)
      else Fin (a / b))"
| "fdiv NaN _ = NaN"
| "fdiv _ NaN = NaN"
| "fdiv (Fin a) PInf = Fin 0"
| "fdiv (Fin a) NInf = Fin 0"
| "fdiv PInf (Fin b) = (if 0 \<le> b then PInf else NInf)"
| "fdiv NInf (Fin b) = (if 0 \<le> b then NInf else PInf)"
| "fdiv PInf PInf = NaN"
| "fdiv PInf NInf = NaN"
| "fdiv NInf PInf = NaN"
| "fdiv NInf NInf = NaN"

text \<open>The comparison \<^verbatim>\<open>==\<close> of two floats: NaN equals nothing, itself included.\<close>

definition feq :: "npfloat \<Rightarrow> npfloat \<Rightarrow> bool" where
  "feq a b = (a \<noteq> NaN \<and> b \<noteq> NaN \<and> a = b)"

fun fle :: "npfloat \<Rightarrow> npfloat \<Rightarrow> bool" where
  "fle (Fin a) (Fin b) = (a \<le> b)"
| "fle NaN _ = False"
| "fle _ NaN = False"
| "fle NInf _ = True"
| "fle _ PInf = True"
| "fle PInf _ = False"
| "fle _ NInf = False"

definition fmax :: "npfloat \<Rightarrow> npfloat \<Rightarrow> npfloat" where
  "fmax a b = (if a = NaN \<or> b = NaN then NaN else if fle a b then b else a)"

definition fmin :: "npfloat \<Rightarrow> npfloat \<Rightarrow> npfloat" where
  "fmin a b = (if a = NaN \<or> b = NaN then NaN else if fle a b then a else b)"

definition is_finite :: "npfloat \<Rightarrow> bool" where
  "is_finite a = (case a of Fin _ \<Rightarrow> True | _ \<Rightarrow> False)"

section \<open>Arrays, errors and indexing\<close>

datatype error = KeyError | IndexError | ValueError

type_synonym vector = "npfloat list"

text \<open>A two-dimensional array is the list of its rows; numpy arrays are rectangular.\<close>

type_synonym matrix = "npfloat list list"

text \<open>The shape of an array: \<open>r\<close> rows of \<open>c\<close> entries each.\<close>

definition has_shape :: "nat \<Rightarrow> nat \<Rightarrow> matrix \<Rightarrow> bool" where
  "has_shape r c m = (length m = r \<and> (\<forall>row\<in>set m. length row = c))"

text \<open>
  Subscripting with a Python integer, as lists and the first axis of a numpy array do
  it: \<^verbatim>\<open>xs[i]\<close> reads position \<open>i\<close> for \<open>0 \<le> i < len\<close>, position \<open>len + i\<close> for
  \<open>-len \<le> i < 0\<close>, and raises IndexError for every other \<open>i\<close>.
\<close>

definition py_index :: "'a list \<Rightarrow> int \<Rightarrow> error + 'a" where
  "py_index xs i =
     (if 0 \<le> i \<and> i < int (length xs) then Inr (xs ! nat i)
      else if i < 0 \<and> - int (length xs) \<le> i then Inr (xs ! nat (int (length xs) + i))
      else Inl IndexError)"

text \<open>\<^verbatim>\<open>np.zeros((r, c))\<close>\<close>

definition np_zeros :: "nat \<Rightarrow> nat \<Rightarrow> matrix" where
  "np_zeros r c = replicate r (replicate c (Fin 0))"

text \<open>Python's builtin \<^verbatim>\<open>sum\<close> and \<^verbatim>\<open>np.sum\<close>: the entries added up from 0.\<close>

definition py_sum :: "vector \<Rightarrow> npfloat" where
  "py_sum xs = foldl fadd (Fin 0) xs"

definition np_sum :: "matrix \<Rightarrow> npfloat" where
  "np_sum m = py_sum (concat m)"

text \<open>
  \<^verbatim>\<open>np.max\<close> and \<^verbatim>\<open>np.min\<close> over all entries: NaN propagates, and an array with no
  entry raises ValueError.
\<close>

definition np_max :: "vector \<Rightarrow> error + npfloat" where
  "np_max xs = (case xs of [] \<Rightarrow> Inl ValueError | x # ys \<Rightarrow> Inr (foldl fmax x ys))"

definition np_min :: "vector \<Rightarrow> error + npfloat" where
  "np_min xs = (case xs of [] \<Rightarrow> Inl ValueError | x # ys \<Rightarrow> Inr (foldl fmin x ys))"

section \<open>The scaler\<close>

text \<open>
  \<^verbatim>\<open>matrix_MinMaxScaler(matrix, scaled_min = 0, scaled_max = 1)\<close>: the matrix is returned
  as it is when its maximum equals its minimum, and is scaled entry by entry otherwise.
\<close>

definition matrix_MinMaxScaler :: "matrix \<Rightarrow> npfloat \<Rightarrow> npfloat \<Rightarrow> error + matrix" where
  "matrix_MinMaxScaler m scaled_min scaled_max =
     (case np_max (concat m) of
        Inl e \<Rightarrow> Inl e
      | Inr mx \<Rightarrow>
          (case np_min (concat m) of
             Inl e \<Rightarrow> Inl e
           | Inr mn \<Rightarrow>
               if feq mx mn then Inr m
               else Inr (map (map (\<lambda>v.
                      fadd (fmul (fdiv (fsub v mn) (fsub mx mn)) (fsub scaled_max scaled_min))
                           scaled_min)) m)))"

section \<open>Dictionaries and error propagation\<close>

text \<open>
  A Python dict is an association list in insertion order with distinct keys;
  \<^verbatim>\<open>d[k]\<close> is \<open>map_of d k\<close> and raises KeyError on a missing key. An exception ends
  the computation, so every later step is skipped once a step has failed.
\<close>

fun bind_err :: "error + 'a \<Rightarrow> ('a \<Rightarrow> error + 'b) \<Rightarrow> error + 'b" where
  "bind_err (Inl e) f = Inl e"
| "bind_err (Inr v) f = f v"

type_synonym weightings = "(string \<times> real) list"

text \<open>\<^verbatim>\<open>dict.fromkeys(vars_list, 1)\<close>\<close>

definition dict_fromkeys_1 :: "string list \<Rightarrow> weightings" where
  "dict_fromkeys_1 vars_list = map (\<lambda>v. (v, 1)) vars_list"

text \<open>
  \<^verbatim>\<open>if not var_weightings: var_weightings = dict.fromkeys(vars_list, 1)\<close>: the test is
  Python truthiness, so both \<^verbatim>\<open>None\<close> and an empty dict take the default.
\<close>

definition weightings_or_default :: "weightings option \<Rightarrow> string list \<Rightarrow> weightings" where
  "weightings_or_default var_weightings vars_list =
     (case var_weightings of
        None \<Rightarrow> dict_fromkeys_1 vars_list
      | Some w \<Rightarrow> if w = [] then dict_fromkeys_1 vars_list else w)"

section \<open>Preprocessing the three kinds of variables\<close>

text \<open>
  A component is valid for a variable when its mean over the other axes is not NaN.
  xarray's \<^verbatim>\<open>mean\<close> skips NaN entries, so the mean of a slice is NaN when the slice has
  no entry that is a number (or when infinities of both signs meet in the sum).
\<close>

definition nanmean :: "vector \<Rightarrow> npfloat" where
  "nanmean xs =
     (let ys = filter (\<lambda>v. v \<noteq> NaN) xs
      in if ys = [] then NaN else fdiv (py_sum ys) (Fin (real (length ys))))"

text \<open>
  \<^verbatim>\<open>var_mean_df['component_id'] = np.array(range(n_components))\<close> raises ValueError
  when the frame does not have \<^verbatim>\<open>n_components\<close> rows; the ids kept are those of the rows
  whose mean \<^verbatim>\<open>notna()\<close>.
\<close>

definition valid_component_ids :: "vector \<Rightarrow> nat \<Rightarrow> error + nat list" where
  "valid_component_ids var_mean n_components =
     (if length var_mean \<noteq> n_components then Inl ValueError
      else Inr (filter (\<lambda>c. var_mean ! c \<noteq> NaN) [0..<n_components]))"

text \<open>\<^verbatim>\<open>np.concatenate((a, b), axis=1)\<close>: the two arrays need the same number of rows.\<close>

definition np_concatenate_axis1 :: "matrix \<Rightarrow> matrix \<Rightarrow> error + matrix" where
  "np_concatenate_axis1 a b =
     (if length a \<noteq> length b then Inl ValueError else Inr (map2 (@) a b))"

subsection \<open>Time series\<close>

text \<open>
  A time-series array is indexed \<^verbatim>\<open>[component][space][TimeStep]\<close>. Step 2 of
  \<^verbatim>\<open>preprocessTimeSeries\<close> scales the slice of each valid component and appends its columns.
\<close>

fun ts_components :: "matrix list \<Rightarrow> nat list \<Rightarrow> matrix \<Rightarrow> error + matrix" where
  "ts_components da [] matrix_var = Inr matrix_var"
| "ts_components da (comp_id # rest) matrix_var =
     bind_err (matrix_MinMaxScaler (da ! comp_id) (Fin 0) (Fin 1)) (\<lambda>matrix_var_c.
     bind_err (np_concatenate_axis1 matrix_var matrix_var_c) (\<lambda>m.
       ts_components da rest m))"

text \<open>
  The body of the loop over the variables: the column of zeros the matrix starts with
  is deleted at the end (\<^verbatim>\<open>np.delete(matrix_var, 0, 1)\<close>).
\<close>

definition preprocess_ts_var :: "matrix list \<Rightarrow> nat \<Rightarrow> nat \<Rightarrow> error + matrix" where
  "preprocess_ts_var da n_regions n_components =
     bind_err (valid_component_ids (map (\<lambda>c. nanmean (map nanmean (transpose c))) da)
                 n_components) (\<lambda>valid_ids.
     bind_err (ts_components da valid_ids (replicate n_regions [Fin 0])) (\<lambda>matrix_var.
       Inr (map tl matrix_var)))"

fun preprocessTimeSeries :: "(string \<times> matrix list) list \<Rightarrow> nat \<Rightarrow> nat
    \<Rightarrow> error + (string \<times> matrix) list" where
  "preprocessTimeSeries [] n_regions n_components = Inr []"
| "preprocessTimeSeries ((var, da) # rest) n_regions n_components =
     bind_err (preprocess_ts_var da n_regions n_components) (\<lambda>matrix_var.
     bind_err (preprocessTimeSeries rest n_regions n_components) (\<lambda>ds_ts.
       Inr ((var, matrix_var) # ds_ts)))"

subsection \<open>Scalar variables\<close>

text \<open>
  Modelled from the spec: \<^verbatim>\<open>sklearn.preprocessing.MinMaxScaler\<close>, whose
  \<^verbatim>\<open>fit_transform\<close> \<^verbatim>\<open>preprocess1dVariables\<close> calls, is a library class and not part of
  the repository. The spec calls it a feature-wise scaler, and the docstring of
  \<^verbatim>\<open>preprocess1dVariables\<close> says that each column, one per valid component, is scaled to
  \<^verbatim>\<open>[0,1]\<close>. With the default feature range \<^verbatim>\<open>(0, 1)\<close> the scaler computes, per column
  and ignoring NaN entries, \<^verbatim>\<open>data_min\<close>, \<^verbatim>\<open>data_max\<close>,
  \<^verbatim>\<open>scale_ = 1 / data_range\<close> (a zero range counts as 1) and
  \<^verbatim>\<open>min_ = 0 - data_min * scale_\<close>, and returns \<^verbatim>\<open>X * scale_ + min_\<close>. It raises
  ValueError on an array with no row or no column and on an infinite entry.
\<close>

definition nanmin :: "vector \<Rightarrow> npfloat" where
  "nanmin xs =
     (case filter (\<lambda>v. v \<noteq> NaN) xs of [] \<Rightarrow> NaN | y # ys \<Rightarrow> foldl fmin y ys)"

definition nanmax :: "vector \<Rightarrow> npfloat" where
  "nanmax xs =
     (case filter (\<lambda>v. v \<noteq> NaN) xs of [] \<Rightarrow> NaN | y # ys \<Rightarrow> foldl fmax y ys)"

definition MinMaxScaler_fit_transform :: "matrix \<Rightarrow> error + matrix" where
  "MinMaxScaler_fit_transform X =
     (if X = [] \<or> hd X = [] then Inl ValueError
      else if list_ex (\<lambda>v. v = PInf \<or> v = NInf) (concat X) then Inl ValueError
      else
        let columns = transpose X;
            data_min = map nanmin columns;
            data_max = map nanmax columns;
            data_range = map2 fsub data_max data_min;
            scale = map (\<lambda>r. fdiv (Fin 1) (if r = Fin 0 then Fin 1 else r)) data_range;
            min_shift = map2 (\<lambda>mn s. fsub (Fin 0) (fmul mn s)) data_min scale
        in Inr (map (\<lambda>row. map2 (\<lambda>v sm. fadd (fmul v (fst sm)) (snd sm)) row (zip scale min_shift))
                  X))"

text \<open>
  A scalar array is indexed \<^verbatim>\<open>[component][space]\<close>. The body of the loop of
  \<^verbatim>\<open>preprocess1dVariables\<close>: \<^verbatim>\<open>da.values[valid_component_ids]\<close> keeps the rows of the
  valid components, and the scaler gets the transposed array (one row per region).
\<close>

definition preprocess_1d_var :: "matrix \<Rightarrow> nat \<Rightarrow> error + matrix" where
  "preprocess_1d_var da n_components =
     bind_err (valid_component_ids (map nanmean da) n_components) (\<lambda>valid_ids.
       MinMaxScaler_fit_transform (transpose (map (\<lambda>c. da ! c) valid_ids)))"

fun preprocess1dVariables :: "(string \<times> matrix) list \<Rightarrow> nat \<Rightarrow> error + (string \<times> matrix) list" where
  "preprocess1dVariables [] n_components = Inr []"
| "preprocess1dVariables ((var, da) # rest) n_components =
     bind_err (preprocess_1d_var da n_components) (\<lambda>m.
     bind_err (preprocess1dVariables rest n_components) (\<lambda>ds_1d.
       Inr ((var, m) # ds_1d)))"

subsection \<open>Pairwise variables\<close>

text \<open>
  A pairwise array is indexed \<^verbatim>\<open>[component][space][space_2]\<close> and carries the labels of
  its two region axes. Step 2a builds a frame whose columns are labelled by
  \<^verbatim>\<open>space_2\<close> and selects the columns in the order of \<^verbatim>\<open>space\<close>: a label that is no
  column raises KeyError, and a row that does not have one entry per label ValueError.
\<close>

type_synonym array2d = "matrix list \<times> string list \<times> string list"

definition reorder_columns :: "string list \<Rightarrow> string list \<Rightarrow> matrix \<Rightarrow> error + matrix" where
  "reorder_columns space1 space2 var_matr =
     (if list_ex (\<lambda>row. length row \<noteq> length space2) var_matr then Inl ValueError
      else if list_ex (\<lambda>l. l \<notin> set space2) space1 then Inl KeyError
      else Inr (map (\<lambda>row. concat (map (\<lambda>l. map snd (filter (\<lambda>kv. fst kv = l) (zip space2 row)))
                                      space1))
                  var_matr))"

fun components_2d :: "matrix list \<Rightarrow> string list \<Rightarrow> string list \<Rightarrow> nat list
    \<Rightarrow> error + (nat \<times> matrix) list" where
  "components_2d da space1 space2 [] = Inr []"
| "components_2d da space1 space2 (comp_id # rest) =
     bind_err (reorder_columns space1 space2 (da ! comp_id)) (\<lambda>da_comp.
     bind_err (matrix_MinMaxScaler da_comp (Fin 0) (Fin 1)) (\<lambda>scaled.
     bind_err (components_2d da space1 space2 rest) (\<lambda>ds_2d_var.
       Inr ((comp_id, scaled) # ds_2d_var))))"

fun preprocess2d_matrices :: "(string \<times> array2d) list \<Rightarrow> nat
    \<Rightarrow> error + (string \<times> (nat \<times> matrix) list) list" where
  "preprocess2d_matrices [] n_components = Inr []"
| "preprocess2d_matrices ((var, (da, space1, space2)) # rest) n_components =
     bind_err (valid_component_ids (map (\<lambda>c. nanmean (map nanmean (transpose c))) da)
                 n_components) (\<lambda>valid_ids.
     bind_err (components_2d da space1 space2 valid_ids) (\<lambda>ds_2d_var.
     bind_err (preprocess2d_matrices rest n_components) (\<lambda>ds_2d.
       Inr ((var, ds_2d_var) # ds_2d))))"

text \<open>
  Modelled from the spec: \<^verbatim>\<open>scipy\<close>'s \<^verbatim>\<open>squareform\<close> is a library function and not part
  of the repository. The spec describes the vector it returns for a square matrix as the
  canonical row-major upper triangle, and the docstring of \<^verbatim>\<open>preprocess2dVariables\<close>
  shows it on a 3 x 3 matrix: row 0 right of the diagonal, then row 1, and so on. A
  matrix that is not square raises ValueError.
\<close>

definition squareform :: "matrix \<Rightarrow> error + vector" where
  "squareform m =
     (if list_ex (\<lambda>row. length row \<noteq> length m) m then Inl ValueError
      else Inr (concat (map (\<lambda>i. drop (Suc i) (m ! i)) [0..<length m])))"

text \<open>
  The position of the pair \<open>(x, y)\<close>, \<open>x < y\<close>, in the row-major upper triangle of an
  \<open>n\<close> by \<open>n\<close> matrix: the \<open>x\<close> rows before it hold \<open>n - 1, n - 2, ...\<close> entries.
\<close>

definition condensed_position :: "nat \<Rightarrow> nat \<Rightarrow> nat \<Rightarrow> nat" where
  "condensed_position n x y = x * n - x * (x + 1) div 2 + (y - x - 1)"

text \<open>Step 4, for \<^verbatim>\<open>handle_mode == 'toDissimilarity'\<close>: \<^verbatim>\<open>vec = 1 - squareform(data)\<close>.\<close>

fun dissimilarity_components :: "(nat \<times> matrix) list \<Rightarrow> error + (nat \<times> vector) list" where
  "dissimilarity_components [] = Inr []"
| "dissimilarity_components ((component, data) # rest) =
     bind_err (squareform data) (\<lambda>vec.
     bind_err (dissimilarity_components rest) (\<lambda>var_dict.
       Inr ((component, map (\<lambda>v. fsub (Fin 1) v) vec) # var_dict)))"

fun dissimilarity_vars :: "(string \<times> (nat \<times> matrix) list) list
    \<Rightarrow> error + (string \<times> (nat \<times> vector) list) list" where
  "dissimilarity_vars [] = Inr []"
| "dissimilarity_vars ((var, var_dict) # rest) =
     bind_err (dissimilarity_components var_dict) (\<lambda>d.
     bind_err (dissimilarity_vars rest) (\<lambda>ds_2d.
       Inr ((var, d) # ds_2d)))"

text \<open>
  What \<^verbatim>\<open>preprocess2dVariables\<close> returns holds condensed vectors in the mode
  \<^verbatim>\<open>'toDissimilarity'\<close> and full matrices in every other mode.
\<close>

datatype ds_2d =
    Vectors2d "(string \<times> (nat \<times> vector) list) list"
  | Matrices2d "(string \<times> (nat \<times> matrix) list) list"

definition preprocess2dVariables :: "(string \<times> array2d) list \<Rightarrow> nat \<Rightarrow> string \<Rightarrow> error + ds_2d" where
  "preprocess2dVariables vars_dict n_components handle_mode =
     bind_err (preprocess2d_matrices vars_dict n_components) (\<lambda>ds.
       if handle_mode = ''toDissimilarity''
       then bind_err (dissimilarity_vars ds) (\<lambda>d. Inr (Vectors2d d))
       else Inr (Matrices2d ds))"

section \<open>Preprocessing a dataset\<close>

text \<open>
  \<^verbatim>\<open>preprocessDataset\<close> sorts the variables of the dataset by their dimensions. A data
  array is modelled by the category its dimensions put it in, with its values in the
  axis order the code brings them to: a time series as
  \<^verbatim>\<open>[Period][component][space][TimeStep]\<close>, of which period 0 is taken. A variable with
  other dimensions only triggers a warning and is left out.
\<close>

datatype data_array =
    Dims_ts "matrix list list"
  | Dims_1d matrix
  | Dims_2d "matrix list"
  | Dims_other

record xr_dataset =
  component_coord :: "string list"
  space_coord :: "string list"
  space_2_coord :: "string list"
  data_vars :: "(string \<times> data_array) list"

fun categorise :: "string list \<Rightarrow> string list \<Rightarrow> (string \<times> data_array) list
    \<Rightarrow> error + ((string \<times> matrix list) list \<times> (string \<times> matrix) list \<times> (string \<times> array2d) list)" where
  "categorise space1 space2 [] = Inr ([], [], [])"
| "categorise space1 space2 ((varname, da) # rest) =
     (case da of
        Dims_ts periods \<Rightarrow>
          bind_err (py_index periods 0) (\<lambda>period0.
          bind_err (categorise space1 space2 rest) (\<lambda>vars.
            Inr ((varname, period0) # fst vars, snd vars)))
      | Dims_1d m \<Rightarrow>
          bind_err (categorise space1 space2 rest) (\<lambda>vars.
            Inr (fst vars, (varname, m) # fst (snd vars), snd (snd vars)))
      | Dims_2d ms \<Rightarrow>
          bind_err (categorise space1 space2 rest) (\<lambda>vars.
            Inr (fst vars, fst (snd vars), (varname, (ms, space1, space2)) # snd (snd vars)))
      | Dims_other \<Rightarrow> categorise space1 space2 rest)"

text \<open>\<^verbatim>\<open>var_matrix * weight\<close>\<close>

definition scale_matrix :: "matrix \<Rightarrow> real \<Rightarrow> matrix" where
  "scale_matrix m weight = map (map (\<lambda>v. fmul v (Fin weight))) m"

text \<open>Steps 4a and 4b: the weighted matrices of a category, appended column-wise.\<close>

fun weighted_concat :: "(string \<times> matrix) list \<Rightarrow> weightings \<Rightarrow> matrix \<Rightarrow> error + matrix" where
  "weighted_concat [] var_weightings acc = Inr acc"
| "weighted_concat ((var, var_matrix) # rest) var_weightings acc =
     (case map_of var_weightings var of
        None \<Rightarrow> Inl KeyError
      | Some weight \<Rightarrow>
          bind_err (np_concatenate_axis1 acc (scale_matrix var_matrix weight)) (\<lambda>m.
            weighted_concat rest var_weightings m))"

text \<open>
  \<^verbatim>\<open>matrix_2d += data * weight\<close>; both arrays are \<^verbatim>\<open>n_regions\<close> by \<^verbatim>\<open>n_regions\<close> in a
  dataset whose region labels are distinct, and numpy raises ValueError on shapes it
  cannot add (its broadcasting of a one-row or one-column array is not modelled).
\<close>

definition matrix_iadd :: "matrix \<Rightarrow> matrix \<Rightarrow> error + matrix" where
  "matrix_iadd a b =
     (if list_all2 (\<lambda>r s. length r = length s) a b then Inr (map2 (map2 fadd) a b)
      else Inl ValueError)"

fun weighted_sum_components :: "(nat \<times> matrix) list \<Rightarrow> real \<Rightarrow> matrix \<Rightarrow> error + matrix" where
  "weighted_sum_components [] weight matrix_2d = Inr matrix_2d"
| "weighted_sum_components ((component, data) # rest) weight matrix_2d =
     bind_err (matrix_iadd matrix_2d (scale_matrix data weight)) (\<lambda>m.
       weighted_sum_components rest weight m)"

fun weighted_sum_2d :: "(string \<times> (nat \<times> matrix) list) list \<Rightarrow> weightings \<Rightarrow> matrix
    \<Rightarrow> error + matrix" where
  "weighted_sum_2d [] var_weightings matrix_2d = Inr matrix_2d"
| "weighted_sum_2d ((var, var_dict) # rest) var_weightings matrix_2d =
     (case map_of var_weightings var of
        None \<Rightarrow> Inl KeyError
      | Some weight \<Rightarrow>
          bind_err (weighted_sum_components var_dict weight matrix_2d) (\<lambda>m.
            weighted_sum_2d rest var_weightings m))"

text \<open>
  The value of \<^verbatim>\<open>preprocessDataset\<close>: three dicts in the mode \<^verbatim>\<open>'toDissimilarity'\<close>,
  three matrices in the mode \<^verbatim>\<open>'toAffinity'\<close>, and \<^verbatim>\<open>None\<close> in any other mode, where the
  function falls off its end. In the mode \<^verbatim>\<open>'toAffinity'\<close> the pairwise variables are
  preprocessed after the weighted matrices of the other two categories are built, and
  \<^verbatim>\<open>preprocess2dVariables\<close> returns matrices there; the case of vectors is never reached.
\<close>

datatype preprocessed =
    Dissimilarity "(string \<times> matrix) list" "(string \<times> matrix) list" ds_2d
  | Affinity matrix matrix matrix
  | PyNone

definition preprocessDataset :: "xr_dataset \<Rightarrow> string \<Rightarrow> weightings option
    \<Rightarrow> error + preprocessed" where
  "preprocessDataset sds handle_mode var_weightings =
     (let n_components = length (component_coord sds);
          n_regions = length (space_coord sds)
      in bind_err (categorise (space_coord sds) (space_2_coord sds) (data_vars sds)) (\<lambda>vars.
         let vars_ts = fst vars; vars_1d = fst (snd vars); vars_2d = snd (snd vars)
         in bind_err (preprocessTimeSeries vars_ts n_regions n_components) (\<lambda>ds_timeseries.
            bind_err (preprocess1dVariables vars_1d n_components) (\<lambda>ds_1d_vars.
              if handle_mode = ''toDissimilarity'' then
                bind_err (preprocess2dVariables vars_2d n_components ''toDissimilarity'')
                  (\<lambda>ds_2d_vars. Inr (Dissimilarity ds_timeseries ds_1d_vars ds_2d_vars))
              else if handle_mode = ''toAffinity'' then
                (let w = weightings_or_default var_weightings
                           (map fst vars_ts @ map fst vars_1d @ map fst vars_2d)
                 in bind_err (weighted_concat ds_timeseries w (replicate n_regions [Fin 0]))
                      (\<lambda>matrix_ts.
                    bind_err (weighted_concat ds_1d_vars w (replicate n_regions [Fin 0]))
                      (\<lambda>matrix_1d.
                    bind_err (preprocess2dVariables vars_2d n_components ''toAffinity'')
                      (\<lambda>ds_2d_vars.
                    bind_err (case ds_2d_vars of
                                Matrices2d ds \<Rightarrow>
                                  weighted_sum_2d ds w (np_zeros n_regions n_regions)
                              | Vectors2d ds \<Rightarrow> Inl ValueError)
                      (\<lambda>matrix_2d.
                        Inr (Affinity (map tl matrix_ts) (map tl matrix_1d) matrix_2d))))))
              else Inr PyNone))))"

section \<open>The distance between two regions\<close>

text \<open>
  Steps 3a and 3b of \<^verbatim>\<open>selfDistance\<close> are the same loop over \<^verbatim>\<open>ds_ts\<close> and over
  \<^verbatim>\<open>ds_1d\<close>: per variable, the weight is looked up, the rows of the two regions are
  read, and the sum of their squared differences times the weight is added.
\<close>

fun distance_rows :: "(string \<times> matrix) list \<Rightarrow> weightings \<Rightarrow> int \<Rightarrow> int \<Rightarrow> npfloat
    \<Rightarrow> error + npfloat" where
  "distance_rows [] var_weightings x y distance = Inr distance"
| "distance_rows ((var, var_matr) # rest) var_weightings x y distance =
     (case map_of var_weightings var of
        None \<Rightarrow> Inl KeyError
      | Some var_weight_factor \<Rightarrow>
          bind_err (py_index var_matr x) (\<lambda>region_x_data.
          bind_err (py_index var_matr y) (\<lambda>region_y_data.
            distance_rows rest var_weightings x y
              (fadd distance
                 (fmul (py_sum (map2 (\<lambda>a b. fmul (fsub a b) (fsub a b))
                                  region_x_data region_y_data))
                       (Fin var_weight_factor))))))"

text \<open>
  The position in a condensed vector that \<^verbatim>\<open>selfDistance\<close> reads for the pair of
  regions: \<^verbatim>\<open>region_index_x * (n_regions - region_index_x) + (region_index_y - region_index_x) - 1\<close>.
\<close>

definition region_index_x_y :: "nat \<Rightarrow> int \<Rightarrow> int \<Rightarrow> int" where
  "region_index_x_y n_regions region_index_x region_index_y =
     region_index_x * (int n_regions - region_index_x) + (region_index_y - region_index_x) - 1"

text \<open>Step 3c (ii): the components of one pairwise variable; a NaN entry adds nothing.\<close>

fun distance_2d_components :: "(nat \<times> vector) list \<Rightarrow> int \<Rightarrow> real \<Rightarrow> npfloat
    \<Rightarrow> error + npfloat" where
  "distance_2d_components [] ixy var_weight_factor distance_2d = Inr distance_2d"
| "distance_2d_components ((component, data) # rest) ixy var_weight_factor distance_2d =
     bind_err (py_index data ixy) (\<lambda>value_var_c.
       distance_2d_components rest ixy var_weight_factor
         (if value_var_c \<noteq> NaN
          then fadd distance_2d (fmul (fmul value_var_c value_var_c) (Fin var_weight_factor))
          else distance_2d))"

fun distance_2d_vars :: "(string \<times> (nat \<times> vector) list) list \<Rightarrow> weightings \<Rightarrow> int \<Rightarrow> npfloat
    \<Rightarrow> error + npfloat" where
  "distance_2d_vars [] var_weightings ixy distance_2d = Inr distance_2d"
| "distance_2d_vars ((var, var_dict) # rest) var_weightings ixy distance_2d =
     (case map_of var_weightings var of
        None \<Rightarrow> Inl KeyError
      | Some var_weight_factor \<Rightarrow>
          bind_err (distance_2d_components var_dict ixy var_weight_factor distance_2d)
            (\<lambda>d. distance_2d_vars rest var_weightings ixy d))"

definition selfDistance :: "(string \<times> matrix) list \<Rightarrow> (string \<times> matrix) list
    \<Rightarrow> (string \<times> (nat \<times> vector) list) list \<Rightarrow> nat \<Rightarrow> int \<Rightarrow> int
    \<Rightarrow> weightings option \<Rightarrow> real list option \<Rightarrow> error + npfloat" where
  "selfDistance ds_ts ds_1d ds_2d n_regions region_index_x region_index_y
       var_weightings part_weightings =
     (let vw = weightings_or_default var_weightings
                 (map fst ds_ts @ map fst ds_1d @ map fst ds_2d);
          pw = (case part_weightings of
                  None \<Rightarrow> [1, 1, 1]
                | Some p \<Rightarrow> if p = [] then [1, 1, 1] else p)
      in bind_err (distance_rows ds_ts vw region_index_x region_index_y (Fin 0)) (\<lambda>distance_ts.
         bind_err (distance_rows ds_1d vw region_index_x region_index_y (Fin 0)) (\<lambda>distance_1d.
         bind_err (distance_2d_vars ds_2d vw
                     (region_index_x_y n_regions region_index_x region_index_y) (Fin 0))
           (\<lambda>distance_2d.
         bind_err (py_index pw 0) (\<lambda>p0.
         bind_err (py_index pw 1) (\<lambda>p1.
         bind_err (py_index pw 2) (\<lambda>p2.
           Inr (fadd (fadd (fmul distance_ts (Fin p0)) (fmul distance_1d (Fin p1)))
                     (fmul distance_2d (Fin p2))))))))))"

section \<open>The distance matrix\<close>

text \<open>\<^verbatim>\<open>m[i, j] = v\<close> on an array that has the entry.\<close>

definition set_entry :: "matrix \<Rightarrow> nat \<Rightarrow> nat \<Rightarrow> npfloat \<Rightarrow> matrix" where
  "set_entry m i j v = m[i := (m ! i)[j := v]]"

text \<open>The inner loop \<^verbatim>\<open>for j in range(i+1, n_regions)\<close> and the outer loop over \<open>i\<close>.\<close>

fun distMatrix_row :: "(string \<times> matrix) list \<Rightarrow> (string \<times> matrix) list
    \<Rightarrow> (string \<times> (nat \<times> vector) list) list \<Rightarrow> nat \<Rightarrow> weightings option
    \<Rightarrow> nat \<Rightarrow> nat list \<Rightarrow> matrix \<Rightarrow> error + matrix" where
  "distMatrix_row ds_ts ds_1d ds_2d n_regions var_weightings i [] distMatrix = Inr distMatrix"
| "distMatrix_row ds_ts ds_1d ds_2d n_regions var_weightings i (j # js) distMatrix =
     bind_err (selfDistance ds_ts ds_1d ds_2d n_regions (int i) (int j) var_weightings None)
       (\<lambda>d. distMatrix_row ds_ts ds_1d ds_2d n_regions var_weightings i js
               (set_entry distMatrix i j d))"

fun distMatrix_rows :: "(string \<times> matrix) list \<Rightarrow> (string \<times> matrix) list
    \<Rightarrow> (string \<times> (nat \<times> vector) list) list \<Rightarrow> nat \<Rightarrow> weightings option
    \<Rightarrow> nat list \<Rightarrow> matrix \<Rightarrow> error + matrix" where
  "distMatrix_rows ds_ts ds_1d ds_2d n_regions var_weightings [] distMatrix = Inr distMatrix"
| "distMatrix_rows ds_ts ds_1d ds_2d n_regions var_weightings (i # is) distMatrix =
     bind_err (distMatrix_row ds_ts ds_1d ds_2d n_regions var_weightings i
                 [Suc i..<n_regions] distMatrix)
       (\<lambda>m. distMatrix_rows ds_ts ds_1d ds_2d n_regions var_weightings is m)"

text \<open>
  \<^verbatim>\<open>distMatrix += distMatrix.T - np.diag(distMatrix.diagonal())\<close> on a square array: the
  right-hand side is a new array, computed before anything is added in place.
\<close>

definition add_transpose_minus_diag :: "matrix \<Rightarrow> matrix" where
  "add_transpose_minus_diag d =
     map (\<lambda>i. map (\<lambda>j. fadd (d ! i ! j)
                          (fsub (d ! j ! i) (if i = j then d ! i ! i else Fin 0)))
                 [0..<length d])
         [0..<length d]"

definition selfDistanceMatrix :: "(string \<times> matrix) list \<Rightarrow> (string \<times> matrix) list
    \<Rightarrow> (string \<times> (nat \<times> vector) list) list \<Rightarrow> nat \<Rightarrow> weightings option
    \<Rightarrow> error + matrix" where
  "selfDistanceMatrix ds_ts ds_1d ds_2d n_regions var_weightings =
     bind_err (distMatrix_rows ds_ts ds_1d ds_2d n_regions var_weightings [0..<n_regions]
                 (np_zeros n_regions n_regions))
       (\<lambda>distMatrix. Inr (add_transpose_minus_diag distMatrix))"

section \<open>Modularity\<close>

text \<open>
  \<^verbatim>\<open>np.fill_diagonal(adjacency, 0)\<close> writes into the caller's array. The model returns
  the array as the call leaves it next to the result, so the effect is visible.
\<close>

definition np_fill_diagonal :: "matrix \<Rightarrow> npfloat \<Rightarrow> matrix" where
  "np_fill_diagonal m v = map (\<lambda>i. (m ! i)[i := v]) [0..<length m]"

fun modularity_inner :: "matrix \<Rightarrow> int list \<Rightarrow> npfloat \<Rightarrow> nat \<Rightarrow> nat list \<Rightarrow> npfloat
    \<Rightarrow> error + npfloat" where
  "modularity_inner adjacency regions_label_list edge_weights_sum v [] modularity =
     Inr modularity"
| "modularity_inner adjacency regions_label_list edge_weights_sum v (w # ws) modularity =
     bind_err (py_index adjacency (int v)) (\<lambda>row_v.
     bind_err (py_index adjacency (int w)) (\<lambda>row_w.
       let d_v = py_sum row_v;
           d_w = py_sum row_w;
           delta = (if regions_label_list ! v = regions_label_list ! w then Fin 1 else Fin 0)
       in bind_err (py_index row_v (int w)) (\<lambda>a_vw.
            modularity_inner adjacency regions_label_list edge_weights_sum v ws
              (fadd modularity
                 (fmul (fsub a_vw (fdiv (fmul d_v d_w) (fmul (Fin 2) edge_weights_sum)))
                       delta)))))"

fun modularity_outer :: "matrix \<Rightarrow> int list \<Rightarrow> npfloat \<Rightarrow> nat \<Rightarrow> nat list \<Rightarrow> npfloat
    \<Rightarrow> error + npfloat" where
  "modularity_outer adjacency regions_label_list edge_weights_sum n_regions [] modularity =
     Inr modularity"
| "modularity_outer adjacency regions_label_list edge_weights_sum n_regions (v # vs) modularity =
     bind_err (modularity_inner adjacency regions_label_list edge_weights_sum v
                 [Suc v..<n_regions] modularity)
       (\<lambda>m. modularity_outer adjacency regions_label_list edge_weights_sum n_regions vs m)"

text \<open>
  \<^verbatim>\<open>computeModularity(adjacency, regions_label_list)\<close>: the first component is what the
  call returns or raises, the second the caller's \<^verbatim>\<open>adjacency\<close> array after the call.
\<close>

definition computeModularity :: "matrix \<Rightarrow> int list \<Rightarrow> (error + npfloat) \<times> matrix" where
  "computeModularity adjacency regions_label_list =
     (let adjacency' = np_fill_diagonal adjacency (Fin 0);
          n_regions = length regions_label_list;
          edge_weights_sum = np_sum adjacency'
      in (bind_err (modularity_outer adjacency' regions_label_list edge_weights_sum n_regions
                      [0..<n_regions] (Fin 0))
            (\<lambda>modularity. Inr (fdiv modularity (fmul (Fin 2) edge_weights_sum))),
          adjacency'))"

section \<open>Properties of the scaler\<close>











section \<open>Scenarios on concrete datasets\<close>

lemmas eval_defs =
  preprocess_1d_var_def valid_component_ids_def nanmean_def nanmin_def nanmax_def
  MinMaxScaler_fit_transform_def py_sum_def fsub_def fmin_def fmax_def
  selfDistanceMatrix_def selfDistance_def weightings_or_default_def dict_fromkeys_1_def
  py_index_def np_zeros_def set_entry_def add_transpose_minus_diag_def region_index_x_y_def

text \<open>
  Claim C8. Three regions, one scalar variable with values 0, 5, 10 for its single
  component, no time-series and no pairwise variable, default weights: the scalar
  preprocessor scales the column to 0, 1/2, 1, and the distance matrix of the
  preprocessed data has distance 1/4 between regions 0 and 1, 1 between regions 0 and
  2, and 1/4 between regions 1 and 2.
\<close>

theorem scenario_A_distance_matrix:
  "bind_err (preprocess1dVariables [(var, [[Fin 0, Fin 5, Fin 10]])] 1)
     (\<lambda>ds_1d. selfDistanceMatrix [] ds_1d [] 3 None)
   = Inr [[Fin 0, Fin (1/4), Fin 1], [Fin (1/4), Fin 0, Fin (1/4)], [Fin 1, Fin (1/4), Fin 0]]"
proof -
  have p: "preprocess1dVariables [(var, [[Fin 0, Fin 5, Fin 10]])] 1
             = Inr [(var, [[Fin 0], [Fin (1/2)], [Fin 1]])]"
    by (simp add: eval_defs upt_rec)
  have d: "selfDistanceMatrix [] [(var, [[Fin 0], [Fin (1/2)], [Fin 1]])] [] 3 None
             = Inr [[Fin 0, Fin (1/4), Fin 1], [Fin (1/4), Fin 0, Fin (1/4)], [Fin 1, Fin (1/4), Fin 0]]"
    by (simp add: eval_defs upt_rec power2_eq_square)
  show ?thesis by (simp only: p d bind_err.simps)
qed

lemmas eval_2d_defs =
  preprocess2dVariables_def valid_component_ids_def nanmean_def py_sum_def
  reorder_columns_def matrix_MinMaxScaler_def np_max_def np_min_def fmax_def fmin_def feq_def
  fsub_def squareform_def

text \<open>
  Claim C1, at four regions. The pairwise preprocessor stores the pairs in the order
  (0,1), (0,2), (0,3), (1,2), (1,3), (2,3), so pair (2,3) is at position 5. The index
  that \<^verbatim>\<open>selfDistance\<close> computes for (2,3) is 4, the position of pair (1,3): the
  distance of regions 2 and 3 comes out as 1/16, from the entry 1/4 of pair (1,3), and
  not as 0, from the entry 0 of pair (2,3).
\<close>

theorem condensed_index_reads_wrong_pair:
  "preprocess2dVariables
      [(var, ([[[Fin 0, Fin 1, Fin 2, Fin 3],
                [Fin 1, Fin 0, Fin 4, Fin 6],
                [Fin 2, Fin 4, Fin 0, Fin 8],
                [Fin 3, Fin 6, Fin 8, Fin 0]]],
              [''a'', ''b'', ''c'', ''d''], [''a'', ''b'', ''c'', ''d'']))] 1 ''toDissimilarity''
     = Inr (Vectors2d [(var, [(0, [Fin (7/8), Fin (3/4), Fin (5/8), Fin (1/2), Fin (1/4), Fin 0])])])
   \<and> region_index_x_y 4 2 3 = 4
   \<and> region_index_x_y 4 1 3 = 4
   \<and> selfDistance [] []
         [(var, [(0, [Fin (7/8), Fin (3/4), Fin (5/8), Fin (1/2), Fin (1/4), Fin 0])])]
         4 2 3 None None = Inr (Fin (1/16))"
  by (simp add: eval_2d_defs eval_defs upt_rec)

text \<open>
  Claim C2, at three regions. For the pair (0,2) \<^verbatim>\<open>selfDistance\<close> reads position 1 of
  the condensed vector; for the pair (2,0) the index is -1, which Python reads as the
  last position. The two distances are 1/4 and 0.
\<close>

theorem selfDistance_swapped_regions_differ:
  "preprocess2dVariables
      [(var, ([[[Fin 0, Fin 1, Fin 2],
                [Fin 1, Fin 0, Fin 4],
                [Fin 2, Fin 4, Fin 0]]],
              [''a'', ''b'', ''c''], [''a'', ''b'', ''c'']))] 1 ''toDissimilarity''
     = Inr (Vectors2d [(var, [(0, [Fin (3/4), Fin (1/2), Fin 0])])])
   \<and> selfDistance [] [] [(var, [(0, [Fin (3/4), Fin (1/2), Fin 0])])] 3 0 2 None None
       = Inr (Fin (1/4))
   \<and> selfDistance [] [] [(var, [(0, [Fin (3/4), Fin (1/2), Fin 0])])] 3 2 0 None None
       = Inr (Fin 0)"
  by (simp add: eval_2d_defs eval_defs upt_rec)

section \<open>Properties of the modularity\<close>

lemma py_index_nat: "i < length xs \<Longrightarrow> py_index xs (int i) = Inr (xs ! i)"
  by (simp add: py_index_def)

lemma length_np_fill_diagonal: "length (np_fill_diagonal m v) = length m"
  by (simp add: np_fill_diagonal_def)

lemma nth_np_fill_diagonal:
  "i < length m \<Longrightarrow> np_fill_diagonal m v ! i = (m ! i)[i := v]"
  by (simp add: np_fill_diagonal_def)

lemma modularity_inner_total:
  assumes "v < length a" and "\<forall>w\<in>set ws. w < length a \<and> w < length (a ! v)"
  shows "\<exists>r. modularity_inner a labels e v ws m = Inr r"
  using assms(2)
proof (induction ws arbitrary: m)
  case Nil
  then show ?case by simp
next
  case (Cons w ws)
  then have w: "w < length a" "w < length (a ! v)" by simp_all
  show ?case
    using Cons.IH Cons.prems assms(1) w
    by (simp add: py_index_nat Let_def)
qed

lemma modularity_outer_total:
  assumes "n \<le> length a" and "\<forall>row\<in>set a. n \<le> length row" and "\<forall>v\<in>set vs. v < n"
  shows "\<exists>r. modularity_outer a labels e n vs m = Inr r"
  using assms(3)
proof (induction vs arbitrary: m)
  case Nil
  then show ?case by simp
next
  case (Cons v vs)
  then have v: "v < n" by simp
  have "n \<le> length (a ! v)"
    using assms(1,2) v by simp
  then have "\<forall>w\<in>set [Suc v..<n]. w < length a \<and> w < length (a ! v)"
    using assms(1) by auto
  then obtain r where "modularity_inner a labels e v [Suc v..<n] m = Inr r"
    using modularity_inner_total [of v a "[Suc v..<n]" labels e m] assms(1) v by auto
  then show ?case using Cons.IH [of r] Cons.prems by simp
qed

lemma fdiv_zero_not_finite: "\<not> is_finite (fdiv m (Fin 0))"
  by (cases m) (simp_all add: is_finite_def)

lemma set_np_fill_diagonal_length:
  assumes "\<forall>row\<in>set m. n \<le> length row"
  shows "\<forall>row\<in>set (np_fill_diagonal m v). n \<le> length row"
  using assms by (auto simp: np_fill_diagonal_def)

text \<open>
  Claim C4, as amended. For a square adjacency matrix with one row per label whose
  entries sum to zero once the diagonal is zeroed, \<^verbatim>\<open>computeModularity\<close> raises no
  error: it returns a value, and the value is NaN or an infinity.
\<close>

theorem computeModularity_zero_weight_not_finite:
  assumes "length adjacency = length labels"
    and "\<forall>row\<in>set adjacency. length row = length labels"
    and "np_sum (np_fill_diagonal adjacency (Fin 0)) = Fin 0"
  shows "\<exists>v. fst (computeModularity adjacency labels) = Inr v \<and> \<not> is_finite v"
proof -
  let ?a = "np_fill_diagonal adjacency (Fin 0)"
  let ?n = "length labels"
  have 1: "?n \<le> length ?a"
    using assms(1) by (simp add: length_np_fill_diagonal)
  have 2: "\<forall>row\<in>set ?a. ?n \<le> length row"
    using assms(2) by (intro set_np_fill_diagonal_length) simp
  obtain r where r: "modularity_outer ?a labels (Fin 0) ?n [0..<?n] (Fin 0) = Inr r"
    using modularity_outer_total [OF 1 2, of "[0..<?n]" labels "Fin 0" "Fin 0"] by auto
  have "fst (computeModularity adjacency labels) = Inr (fdiv r (Fin 0))"
    by (simp add: computeModularity_def Let_def assms(3) r)
  then show ?thesis using fdiv_zero_not_finite by blast
qed










lemmas eval_modularity_defs =
  computeModularity_def np_fill_diagonal_def np_sum_def py_sum_def py_index_def fsub_def
  is_finite_def Let_def


text \<open>
  Claim C4 as stated fails: two regions with no edge between them (and the self-loops
  that \<^verbatim>\<open>generateConnectivityMatrix\<close> forces) have total edge weight zero, and the
  call returns NaN instead of raising.
\<close>

theorem computeModularity_zero_weight_returns_nan:
  "fst (computeModularity [[Fin 1, Fin 0], [Fin 0, Fin 1]] [0, 0]) = Inr NaN"
  by (simp add: eval_modularity_defs upt_rec)

theorem computeModularity_zero_weight_not_finite_witness:
  "\<exists>v. fst (computeModularity [[Fin 1, Fin 0], [Fin 0, Fin 1]] [0, 0]) = Inr v \<and> \<not> is_finite v"
  using computeModularity_zero_weight_not_finite [of "[[Fin 1, Fin 0], [Fin 0, Fin 1]]" "[0, 0]"]
  by (simp add: np_fill_diagonal_def np_sum_def py_sum_def upt_rec)

text \<open>
  Claim C10, as amended. After \<^verbatim>\<open>computeModularity\<close> the caller's adjacency array has
  the shape it had, every diagonal entry is 0 and every other entry is what it was.
\<close>

theorem computeModularity_overwrites_diagonal:
  "length (snd (computeModularity adjacency labels)) = length adjacency
   \<and> (\<forall>i<length adjacency.
        length (snd (computeModularity adjacency labels) ! i) = length (adjacency ! i)
        \<and> (\<forall>j<length (adjacency ! i).
             snd (computeModularity adjacency labels) ! i ! j
               = (if i = j then Fin 0 else adjacency ! i ! j)))"
  by (simp add: computeModularity_def Let_def np_fill_diagonal_def)

theorem computeModularity_overwrites_diagonal_witness:
  "snd (computeModularity [[Fin 1, Fin 1], [Fin 1, Fin 1]] [0, 0]) ! 0 ! 0 = Fin 0
   \<and> snd (computeModularity [[Fin 1, Fin 1], [Fin 1, Fin 1]] [0, 0]) ! 0 ! 1 = Fin 1"
  using computeModularity_overwrites_diagonal [of "[[Fin 1, Fin 1], [Fin 1, Fin 1]]" "[0, 0]"]
  by (simp add: nth_Cons')

text \<open>
  Claim C10 as stated fails: an adjacency matrix with self-loops is not the same after
  the call.
\<close>

theorem computeModularity_changes_adjacency:
  "snd (computeModularity [[Fin 1, Fin 1], [Fin 1, Fin 1]] [0, 0])
     = [[Fin 0, Fin 1], [Fin 1, Fin 0]]
   \<and> snd (computeModularity [[Fin 1, Fin 1], [Fin 1, Fin 1]] [0, 0])
     \<noteq> [[Fin 1, Fin 1], [Fin 1, Fin 1]]"
  by (simp add: eval_modularity_defs upt_rec)

section \<open>Properties of the distance matrix\<close>

lemma length_set_entry: "length (set_entry m i j v) = length m"
  by (simp add: set_entry_def)

lemma length_nth_set_entry: "length (set_entry m i j v ! a) = length (m ! a)"
proof (cases "i < length m")
  case True
  then show ?thesis by (cases "a = i") (simp_all add: set_entry_def)
next
  case False
  then show ?thesis by (simp add: set_entry_def list_update_beyond)
qed

lemma nth_set_entry_other:
  "\<not> (a = i \<and> b = j) \<Longrightarrow> set_entry m i j v ! a ! b = m ! a ! b"
proof (cases "i < length m")
  case True
  assume "\<not> (a = i \<and> b = j)"
  then show ?thesis using True by (cases "a = i") (simp_all add: set_entry_def)
next
  case False
  then show ?thesis by (simp add: set_entry_def list_update_beyond)
qed

lemma distMatrix_row_frame:
  assumes "distMatrix_row ds_ts ds_1d ds_2d n w i js d = Inr d'"
  shows "length d' = length d
       \<and> (\<forall>a. length (d' ! a) = length (d ! a))
       \<and> (\<forall>a b. \<not> (a = i \<and> b \<in> set js) \<longrightarrow> d' ! a ! b = d ! a ! b)"
  using assms
proof (induction js arbitrary: d)
  case Nil
  then show ?case by simp
next
  case (Cons j js)
  from Cons.prems obtain v where
    rest: "distMatrix_row ds_ts ds_1d ds_2d n w i js (set_entry d i j v) = Inr d'"
    by (cases "selfDistance ds_ts ds_1d ds_2d n (int i) (int j) w None") simp_all
  note ih = Cons.IH [OF rest]
  show ?case
  proof (intro conjI allI impI)
    show "length d' = length d"
      using ih by (simp add: length_set_entry)
    show "length (d' ! a) = length (d ! a)" for a
      using ih by (simp add: length_nth_set_entry)
    show "d' ! a ! b = d ! a ! b" if "\<not> (a = i \<and> b \<in> set (j # js))" for a b
    proof -
      from that have 1: "\<not> (a = i \<and> b \<in> set js)" and 2: "\<not> (a = i \<and> b = j)"
        by auto
      have "d' ! a ! b = set_entry d i j v ! a ! b"
        using ih 1 by blast
      then show ?thesis using nth_set_entry_other [OF 2] by simp
    qed
  qed
qed

lemma distMatrix_rows_frame:
  assumes "distMatrix_rows ds_ts ds_1d ds_2d n w is d = Inr d'"
  shows "length d' = length d
       \<and> (\<forall>a. length (d' ! a) = length (d ! a))
       \<and> (\<forall>a b. b \<le> a \<longrightarrow> d' ! a ! b = d ! a ! b)"
  using assms
proof (induction "is" arbitrary: d)
  case Nil
  then show ?case by simp
next
  case (Cons i "is")
  from Cons.prems obtain m where
    row: "distMatrix_row ds_ts ds_1d ds_2d n w i [Suc i..<n] d = Inr m" and
    rest: "distMatrix_rows ds_ts ds_1d ds_2d n w is m = Inr d'"
    by (cases "distMatrix_row ds_ts ds_1d ds_2d n w i [Suc i..<n] d") simp_all
  note fr = distMatrix_row_frame [OF row]
  note ih = Cons.IH [OF rest]
  show ?case
  proof (intro conjI allI impI)
    show "length d' = length d" using ih fr by simp
    show "length (d' ! a) = length (d ! a)" for a using ih fr by simp
    show "d' ! a ! b = d ! a ! b" if "b \<le> a" for a b
    proof -
      have "\<not> (a = i \<and> b \<in> set [Suc i..<n])" using that by auto
      then have "m ! a ! b = d ! a ! b" using fr by blast
      then show ?thesis using ih that by simp
    qed
  qed
qed

lemma fadd_zero_right: "fadd u (Fin 0) = u"
  by (cases u) simp_all

lemma fadd_zero_left: "fadd (Fin 0) u = u"
  by (cases u) simp_all

lemma fsub_zero_right: "fsub u (Fin 0) = u"
  by (cases u) (simp_all add: fsub_def)

lemma nth_add_transpose_minus_diag:
  assumes "i < length d" and "j < length d"
  shows "add_transpose_minus_diag d ! i ! j
           = fadd (d ! i ! j) (fsub (d ! j ! i) (if i = j then d ! i ! i else Fin 0))"
  using assms by (simp add: add_transpose_minus_diag_def)

lemma nth_np_zeros: "i < r \<Longrightarrow> j < c \<Longrightarrow> np_zeros r c ! i ! j = Fin 0"
  by (simp add: np_zeros_def)

text \<open>
  Claim C6. Whenever \<^verbatim>\<open>selfDistanceMatrix\<close> returns a matrix, the matrix has
  \<^verbatim>\<open>n_regions\<close> rows of \<^verbatim>\<open>n_regions\<close> entries, entry (i,j) equals entry (j,i) for all
  i and j, and every diagonal entry is 0.
\<close>

theorem selfDistanceMatrix_hollow_symmetric:
  assumes "selfDistanceMatrix ds_ts ds_1d ds_2d n_regions var_weightings = Inr distMatrix"
  shows "length distMatrix = n_regions
       \<and> (\<forall>i<n_regions. length (distMatrix ! i) = n_regions)
       \<and> (\<forall>i<n_regions. \<forall>j<n_regions. distMatrix ! i ! j = distMatrix ! j ! i)
       \<and> (\<forall>i<n_regions. distMatrix ! i ! i = Fin 0)"
proof -
  from assms obtain u where
    u: "distMatrix_rows ds_ts ds_1d ds_2d n_regions var_weightings [0..<n_regions]
          (np_zeros n_regions n_regions) = Inr u"
    and d: "distMatrix = add_transpose_minus_diag u"
    unfolding selfDistanceMatrix_def
    by (cases "distMatrix_rows ds_ts ds_1d ds_2d n_regions var_weightings [0..<n_regions]
                 (np_zeros n_regions n_regions)") auto
  note fr = distMatrix_rows_frame [OF u]
  have len: "length u = n_regions"
    using fr by (simp add: np_zeros_def)
  have low: "u ! a ! b = Fin 0" if "b \<le> a" and "a < n_regions" for a b
    using fr that by (simp add: nth_np_zeros)
  have entry: "distMatrix ! i ! j
                 = fadd (u ! i ! j) (fsub (u ! j ! i) (if i = j then u ! i ! i else Fin 0))"
    if "i < n_regions" and "j < n_regions" for i j
    using that len by (simp add: d nth_add_transpose_minus_diag)
  have upper: "distMatrix ! i ! j = u ! i ! j \<and> distMatrix ! j ! i = u ! i ! j"
    if "i < j" and "j < n_regions" for i j
  proof -
    have z: "u ! j ! i = Fin 0" using low [of i j] that by simp
    have "i < n_regions" using that by simp
    then show ?thesis
      using that entry [of i j] entry [of j i] z
      by (simp add: fadd_zero_right fadd_zero_left fsub_zero_right)
  qed
  have sym: "distMatrix ! i ! j = distMatrix ! j ! i"
    if "i < n_regions" and "j < n_regions" for i j
  proof -
    consider "i < j" | "j < i" | "i = j" by linarith
    then show ?thesis
    proof cases
      case 1
      then show ?thesis using upper [of i j] that by simp
    next
      case 2
      then show ?thesis using upper [of j i] that by simp
    next
      case 3
      then show ?thesis by simp
    qed
  qed
  have diag: "distMatrix ! i ! i = Fin 0" if "i < n_regions" for i
    using entry [OF that that] low [of i i] that by (simp add: fsub_def)
  have rows: "length (distMatrix ! i) = n_regions" if "i < n_regions" for i
    using that len by (simp add: d add_transpose_minus_diag_def)
  have "length distMatrix = n_regions"
    using len by (simp add: d add_transpose_minus_diag_def)
  then show ?thesis using rows sym diag by blast
qed

theorem selfDistanceMatrix_hollow_symmetric_witness:
  "selfDistanceMatrix [] [(''cap'', [[Fin 0], [Fin (1/2)], [Fin 1]])]
       [(''pipe'', [(0, [Fin (3/4), Fin (1/2), Fin 0])])] 3 None
     = Inr [[Fin 0, Fin (13/16), Fin (5/4)],
            [Fin (13/16), Fin 0, Fin (1/4)],
            [Fin (5/4), Fin (1/4), Fin 0]]
   \<and> length [[Fin 0, Fin (13/16), Fin (5/4)],
              [Fin (13/16), Fin 0, Fin (1/4)],
              [Fin (5/4), Fin (1/4), Fin 0]] = (3::nat)"
proof -
  have e: "selfDistanceMatrix [] [(''cap'', [[Fin 0], [Fin (1/2)], [Fin 1]])]
       [(''pipe'', [(0, [Fin (3/4), Fin (1/2), Fin 0])])] 3 None
     = Inr [[Fin 0, Fin (13/16), Fin (5/4)],
            [Fin (13/16), Fin 0, Fin (1/4)],
            [Fin (5/4), Fin (1/4), Fin 0]]"
    by (simp add: eval_defs upt_rec)
  show ?thesis
    using selfDistanceMatrix_hollow_symmetric [OF e] e by simp
qed

section \<open>Weight lookups\<close>

lemma py_index_in_range:
  assumes "- int (length xs) \<le> i" and "i < int (length xs)"
  shows "\<exists>v. py_index xs i = Inr v"
  using assms by (simp add: py_index_def)

lemma distance_rows_keys:
  assumes "\<forall>km\<in>set ds. length (snd km) = n" and "0 \<le> x" and "x < int n"
    and "0 \<le> y" and "y < int n"
  shows "if \<forall>k\<in>set (map fst ds). map_of w k \<noteq> None
         then \<exists>r. distance_rows ds w x y acc = Inr r
         else distance_rows ds w x y acc = Inl KeyError"
  using assms(1)
proof (induction ds arbitrary: acc)
  case Nil
  then show ?case by simp
next
  case (Cons km ds)
  obtain k m where km: "km = (k, m)" by (cases km)
  have len: "length m = n" using Cons.prems km by simp
  obtain rx where rx: "py_index m x = Inr rx"
    using py_index_in_range [of m x] len assms(2,3) by auto
  obtain ry where ry: "py_index m y = Inr ry"
    using py_index_in_range [of m y] len assms(4,5) by auto
  have ih: "if \<forall>k\<in>set (map fst ds). map_of w k \<noteq> None
         then \<exists>r. distance_rows ds w x y acc' = Inr r
         else distance_rows ds w x y acc' = Inl KeyError" for acc'
    using Cons.IH Cons.prems by simp
  show ?case
  proof (cases "map_of w k")
    case None
    then show ?thesis by (simp add: km)
  next
    case (Some wgt)
    then show ?thesis
      using ih by (simp add: km rx ry)
  qed
qed

lemma distance_2d_components_total:
  assumes "\<forall>cv\<in>set d. - int (length (snd cv)) \<le> ixy \<and> ixy < int (length (snd cv))"
  shows "\<exists>r. distance_2d_components d ixy wgt acc = Inr r"
  using assms
proof (induction d arbitrary: acc)
  case Nil
  then show ?case by simp
next
  case (Cons cv d)
  obtain c vec where cv: "cv = (c, vec)" by (cases cv)
  obtain v where v: "py_index vec ixy = Inr v"
    using py_index_in_range [of vec ixy] Cons.prems cv by auto
  show ?case
    using Cons.IH Cons.prems by (simp add: cv v)
qed

lemma distance_2d_vars_keys:
  assumes "\<forall>kd\<in>set ds. \<forall>cv\<in>set (snd kd).
             - int (length (snd cv)) \<le> ixy \<and> ixy < int (length (snd cv))"
  shows "if \<forall>k\<in>set (map fst ds). map_of w k \<noteq> None
         then \<exists>r. distance_2d_vars ds w ixy acc = Inr r
         else distance_2d_vars ds w ixy acc = Inl KeyError"
  using assms
proof (induction ds arbitrary: acc)
  case Nil
  then show ?case by simp
next
  case (Cons kd ds)
  obtain k d where kd: "kd = (k, d)" by (cases kd)
  have ih: "if \<forall>k\<in>set (map fst ds). map_of w k \<noteq> None
         then \<exists>r. distance_2d_vars ds w ixy acc' = Inr r
         else distance_2d_vars ds w ixy acc' = Inl KeyError" for acc'
    using Cons.IH Cons.prems by simp
  show ?case
  proof (cases "map_of w k")
    case None
    then show ?thesis by (simp add: kd)
  next
    case (Some wgt)
    obtain r where r: "distance_2d_components d ixy wgt acc = Inr r"
      using distance_2d_components_total [of d ixy wgt acc] Cons.prems kd by auto
    show ?thesis
      using ih Some by (simp add: kd r)
  qed
qed

text \<open>The index stays inside a condensed vector of n (n - 1) / 2 entries.\<close>

lemma region_index_x_y_range:
  assumes "2 \<le> n" and "0 \<le> x" and "x < int n" and "0 \<le> y" and "y < int n"
  shows "- int (n * (n - 1) div 2) \<le> region_index_x_y n x y"
    and "region_index_x_y n x y < int (n * (n - 1) div 2)"
proof -
  define N where "N = int n"
  have N: "2 \<le> N" "x < N" "y < N" using assms by (simp_all add: N_def)
  have ev: "even (n * (n - 1))" by (cases "even n") simp_all
  have "int (n * (n - 1) div 2) * 2 = int (n * (n - 1))"
    using ev by (metis dvd_div_mult_self of_nat_mult of_nat_numeral)
  also have "\<dots> = N * (N - 1)"
    using assms(1) by (simp add: N_def of_nat_diff)
  finally have L: "int (n * (n - 1) div 2) * 2 = N * (N - 1)" .
  have a: "0 \<le> x * (N - x - 1)"
    using assms(2) N by simp
  have b: "0 \<le> (N - x - 1) * (N - x - 2)"
  proof (cases "N - x = 1")
    case True
    then show ?thesis by simp
  next
    case False
    then have "0 \<le> N - x - 2" using N by simp
    moreover have "0 \<le> N - x - 1" using N by simp
    ultimately show ?thesis by simp
  qed
  have c: "0 \<le> x * (x - 1)"
  proof (cases "x = 0")
    case True
    then show ?thesis by simp
  next
    case False
    then have "0 \<le> x - 1" using assms(2) by simp
    then show ?thesis using assms(2) by simp
  qed
  have idx: "region_index_x_y n x y = x * (N - x - 1) + y - 1"
    by (simp add: region_index_x_y_def N_def algebra_simps)
  have lo: "- 1 \<le> region_index_x_y n x y"
    using a assms(4) by (simp add: idx)
  have "0 < N * (N - 1)" using N by simp
  then have pos: "0 < int (n * (n - 1) div 2)" using L by linarith
  show "- int (n * (n - 1) div 2) \<le> region_index_x_y n x y"
    using lo pos by linarith
  define A where "A = x * (N - x - 1)"
  define B where "B = (N - x - 1) * (N - x - 2) + x * (x - 1)"
  define D where "D = N * (N - 1)"
  have "2 * A + B = D - 2 * (N - 1)"
    by (simp add: A_def B_def D_def algebra_simps)
  moreover have "0 \<le> B" using b c by (simp add: B_def)
  ultimately have "2 * (A + y - 1) + 2 \<le> D"
    using N(3) by presburger
  then have "2 * region_index_x_y n x y + 2 \<le> N * (N - 1)"
    by (simp add: idx A_def D_def)
  then show "region_index_x_y n x y < int (n * (n - 1) div 2)"
    using L by linarith
qed

lemma selfDistance_missing_key:
  assumes "w \<noteq> []"
    and "v \<in> set (map fst ds_ts @ map fst ds_1d @ map fst ds_2d)" and "map_of w v = None"
    and "2 \<le> n" and "0 \<le> x" and "x < int n" and "0 \<le> y" and "y < int n"
    and "\<forall>km\<in>set (ds_ts @ ds_1d). length (snd km) = n"
    and "\<forall>kd\<in>set ds_2d. \<forall>cv\<in>set (snd kd). length (snd cv) = n * (n - 1) div 2"
  shows "selfDistance ds_ts ds_1d ds_2d n x y (Some w) pw = Inl KeyError"
proof -
  let ?ixy = "region_index_x_y n x y"
  have vw: "weightings_or_default (Some w) (map fst ds_ts @ map fst ds_1d @ map fst ds_2d) = w"
    using assms(1) by (simp add: weightings_or_default_def)
  have ts: "if \<forall>k\<in>set (map fst ds_ts). map_of w k \<noteq> None
         then \<exists>r. distance_rows ds_ts w x y (Fin 0) = Inr r
         else distance_rows ds_ts w x y (Fin 0) = Inl KeyError"
    using assms(5-9) by (intro distance_rows_keys [where n = n]) simp_all
  have d1: "if \<forall>k\<in>set (map fst ds_1d). map_of w k \<noteq> None
         then \<exists>r. distance_rows ds_1d w x y (Fin 0) = Inr r
         else distance_rows ds_1d w x y (Fin 0) = Inl KeyError"
    using assms(5-9) by (intro distance_rows_keys [where n = n]) simp_all
  have rng: "\<forall>kd\<in>set ds_2d. \<forall>cv\<in>set (snd kd).
               - int (length (snd cv)) \<le> ?ixy \<and> ?ixy < int (length (snd cv))"
    using region_index_x_y_range [OF assms(4-8)] assms(10) by simp
  have d2: "if \<forall>k\<in>set (map fst ds_2d). map_of w k \<noteq> None
         then \<exists>r. distance_2d_vars ds_2d w ?ixy (Fin 0) = Inr r
         else distance_2d_vars ds_2d w ?ixy (Fin 0) = Inl KeyError"
    using rng by (rule distance_2d_vars_keys)
  show ?thesis
  proof (cases "\<forall>k\<in>set (map fst ds_ts). map_of w k \<noteq> None")
    case False
    then have "distance_rows ds_ts w x y (Fin 0) = Inl KeyError" using ts by simp
    then show ?thesis by (simp add: selfDistance_def vw Let_def)
  next
    case kts: True
    then obtain r1 where r1: "distance_rows ds_ts w x y (Fin 0) = Inr r1" using ts by auto
    show ?thesis
    proof (cases "\<forall>k\<in>set (map fst ds_1d). map_of w k \<noteq> None")
      case False
      then have "distance_rows ds_1d w x y (Fin 0) = Inl KeyError" using d1 by simp
      then show ?thesis by (simp add: selfDistance_def vw Let_def r1)
    next
      case k1d: True
      then obtain r2 where r2: "distance_rows ds_1d w x y (Fin 0) = Inr r2" using d1 by auto
      have "v \<in> set (map fst ds_2d)"
        using assms(2,3) kts k1d by auto
      then have "\<not> (\<forall>k\<in>set (map fst ds_2d). map_of w k \<noteq> None)"
        using assms(3) by blast
      then have "distance_2d_vars ds_2d w ?ixy (Fin 0) = Inl KeyError" using d2 by simp
      then show ?thesis by (simp add: selfDistance_def vw Let_def r1 r2)
    qed
  qed
qed

lemma np_concatenate_axis1_length:
  "np_concatenate_axis1 a b = Inr m \<Longrightarrow> length m = length a"
  by (auto simp: np_concatenate_axis1_def split: if_splits)

lemma weighted_concat_keys:
  assumes "\<forall>km\<in>set ds. length (snd km) = length acc"
  shows "if \<forall>k\<in>set (map fst ds). map_of w k \<noteq> None
         then \<exists>r. weighted_concat ds w acc = Inr r \<and> length r = length acc
         else weighted_concat ds w acc = Inl KeyError"
  using assms
proof (induction ds arbitrary: acc)
  case Nil
  then show ?case by simp
next
  case (Cons km ds)
  obtain k m where km: "km = (k, m)" by (cases km)
  have len: "length m = length acc" using Cons.prems km by simp
  show ?case
  proof (cases "map_of w k")
    case None
    then show ?thesis by (simp add: km)
  next
    case (Some wgt)
    let ?acc' = "map2 (@) acc (scale_matrix m wgt)"
    have cat: "np_concatenate_axis1 acc (scale_matrix m wgt) = Inr ?acc'"
      using len by (simp add: np_concatenate_axis1_def scale_matrix_def)
    have l': "length ?acc' = length acc"
      using len by (simp add: scale_matrix_def)
    have "\<forall>km\<in>set ds. length (snd km) = length ?acc'"
      using Cons.prems l' by simp
    from Cons.IH [OF this]
    have ih: "if \<forall>k\<in>set (map fst ds). map_of w k \<noteq> None
         then \<exists>r. weighted_concat ds w ?acc' = Inr r \<and> length r = length acc
         else weighted_concat ds w ?acc' = Inl KeyError"
      by (simp only: l')
    show ?thesis
      using Some ih by (simp add: km cat)
  qed
qed

lemma matrix_iadd_shape:
  assumes "has_shape r c a" and "has_shape r c b"
  shows "\<exists>m. matrix_iadd a b = Inr m \<and> has_shape r c m"
proof -
  have l2: "list_all2 (\<lambda>r s. length r = length s) a b"
    using assms by (auto simp: has_shape_def list_all2_conv_all_nth)
  have "has_shape r c (map2 (map2 fadd) a b)"
    using assms by (auto simp: has_shape_def set_zip)
  then show ?thesis using l2 by (simp add: matrix_iadd_def)
qed

lemma has_shape_scale_matrix: "has_shape r c m \<Longrightarrow> has_shape r c (scale_matrix m wgt)"
  by (auto simp: has_shape_def scale_matrix_def)

lemma weighted_sum_components_total:
  assumes "has_shape r c acc" and "\<forall>cm\<in>set d. has_shape r c (snd cm)"
  shows "\<exists>m. weighted_sum_components d wgt acc = Inr m \<and> has_shape r c m"
  using assms
proof (induction d arbitrary: acc)
  case Nil
  then show ?case by simp
next
  case (Cons cm d)
  obtain k m where cm: "cm = (k, m)" by (cases cm)
  have "has_shape r c (scale_matrix m wgt)"
    using Cons.prems(2) cm by (simp add: has_shape_scale_matrix)
  then obtain a' where a': "matrix_iadd acc (scale_matrix m wgt) = Inr a'" "has_shape r c a'"
    using matrix_iadd_shape [OF Cons.prems(1)] by blast
  show ?case
    using Cons.IH [OF a'(2)] Cons.prems(2) by (simp add: cm a'(1))
qed

lemma weighted_sum_2d_keys:
  assumes "has_shape r c acc" and "\<forall>kd\<in>set ds. \<forall>cm\<in>set (snd kd). has_shape r c (snd cm)"
  shows "if \<forall>k\<in>set (map fst ds). map_of w k \<noteq> None
         then \<exists>m. weighted_sum_2d ds w acc = Inr m \<and> has_shape r c m
         else weighted_sum_2d ds w acc = Inl KeyError"
  using assms
proof (induction ds arbitrary: acc)
  case Nil
  then show ?case by simp
next
  case (Cons kd ds)
  obtain k d where kd: "kd = (k, d)" by (cases kd)
  show ?case
  proof (cases "map_of w k")
    case None
    then show ?thesis by (simp add: kd)
  next
    case (Some wgt)
    have "\<forall>cm\<in>set d. has_shape r c (snd cm)" using Cons.prems(2) kd by simp
    then obtain a' where a': "weighted_sum_components d wgt acc = Inr a'" "has_shape r c a'"
      using weighted_sum_components_total [OF Cons.prems(1)] by blast
    have "\<forall>kd\<in>set ds. \<forall>cm\<in>set (snd kd). has_shape r c (snd cm)"
      using Cons.prems(2) by simp
    from Cons.IH [OF a'(2) this] show ?thesis
      using Some by (simp add: kd a'(1))
  qed
qed

lemma preprocessTimeSeries_keys:
  "preprocessTimeSeries vars n nc = Inr ds \<Longrightarrow> map fst ds = map fst vars"
proof (induction vars arbitrary: ds)
  case Nil
  then show ?case by simp
next
  case (Cons kv vars)
  obtain k da where kv: "kv = (k, da)" by (cases kv)
  from Cons.prems obtain m ds' where
    "preprocessTimeSeries vars n nc = Inr ds'" and "ds = (k, m) # ds'"
    by (cases "preprocess_ts_var da n nc"; cases "preprocessTimeSeries vars n nc")
       (auto simp: kv)
  then show ?case using Cons.IH by (simp add: kv)
qed

lemma preprocess1dVariables_keys:
  "preprocess1dVariables vars nc = Inr ds \<Longrightarrow> map fst ds = map fst vars"
proof (induction vars arbitrary: ds)
  case Nil
  then show ?case by simp
next
  case (Cons kv vars)
  obtain k da where kv: "kv = (k, da)" by (cases kv)
  from Cons.prems obtain m ds' where
    "preprocess1dVariables vars nc = Inr ds'" and "ds = (k, m) # ds'"
    by (cases "preprocess_1d_var da nc"; cases "preprocess1dVariables vars nc")
       (auto simp: kv)
  then show ?case using Cons.IH by (simp add: kv)
qed

lemma preprocess2d_matrices_keys:
  "preprocess2d_matrices vars nc = Inr ds \<Longrightarrow> map fst ds = map fst vars"
proof (induction vars arbitrary: ds)
  case Nil
  then show ?case by simp
next
  case (Cons kv vars)
  obtain k da s1 s2 where kv: "kv = (k, (da, s1, s2))" by (cases kv) auto
  let ?ids = "valid_component_ids (map (\<lambda>c. nanmean (map nanmean (transpose c))) da) nc"
  from Cons.prems obtain ids where ids: "?ids = Inr ids"
    by (cases ?ids) (auto simp: kv)
  from Cons.prems obtain d where d: "components_2d da s1 s2 ids = Inr d"
    by (cases "components_2d da s1 s2 ids") (auto simp: kv ids)
  from Cons.prems obtain ds' where
    "preprocess2d_matrices vars nc = Inr ds'" and "ds = (k, d) # ds'"
    by (cases "preprocess2d_matrices vars nc") (auto simp: kv ids d)
  then show ?case using Cons.IH by (simp add: kv)
qed

lemma preprocess2dVariables_affinity_keys:
  assumes "preprocess2dVariables vars nc ''toAffinity'' = Inr (Matrices2d ds)"
  shows "map fst ds = map fst vars"
proof -
  from assms have "preprocess2d_matrices vars nc = Inr ds"
    by (cases "preprocess2d_matrices vars nc") (auto simp: preprocess2dVariables_def)
  then show ?thesis by (rule preprocess2d_matrices_keys)
qed

lemma ts_components_length:
  "ts_components da ids m0 = Inr m \<Longrightarrow> length m = length m0"
proof (induction ids arbitrary: m0)
  case Nil
  then show ?case by simp
next
  case (Cons c ids)
  from Cons.prems obtain s where s: "matrix_MinMaxScaler (da ! c) (Fin 0) (Fin 1) = Inr s"
    by (cases "matrix_MinMaxScaler (da ! c) (Fin 0) (Fin 1)") auto
  from Cons.prems obtain m1 where m1: "np_concatenate_axis1 m0 s = Inr m1"
    and rest: "ts_components da ids m1 = Inr m"
    by (cases "np_concatenate_axis1 m0 s") (auto simp: s)
  show ?case
    using Cons.IH [OF rest] np_concatenate_axis1_length [OF m1] by simp
qed

lemma preprocess_ts_var_length:
  assumes "preprocess_ts_var da n nc = Inr m"
  shows "length m = n"
proof -
  let ?ids = "valid_component_ids (map (\<lambda>c. nanmean (map nanmean (transpose c))) da) nc"
  from assms obtain ids where ids: "?ids = Inr ids"
    by (cases ?ids) (auto simp: preprocess_ts_var_def)
  from assms obtain m' where m': "ts_components da ids (replicate n [Fin 0]) = Inr m'"
    and m: "m = map tl m'"
    by (cases "ts_components da ids (replicate n [Fin 0])")
       (auto simp: preprocess_ts_var_def ids)
  show ?thesis using ts_components_length [OF m'] m by simp
qed

lemma preprocessTimeSeries_length:
  "preprocessTimeSeries vars n nc = Inr ds \<Longrightarrow> \<forall>km\<in>set ds. length (snd km) = n"
proof (induction vars arbitrary: ds)
  case Nil
  then show ?case by simp
next
  case (Cons kv vars)
  obtain k da where kv: "kv = (k, da)" by (cases kv)
  from Cons.prems obtain m where m: "preprocess_ts_var da n nc = Inr m"
    by (cases "preprocess_ts_var da n nc") (auto simp: kv)
  from Cons.prems obtain ds' where
    ds': "preprocessTimeSeries vars n nc = Inr ds'" and ds: "ds = (k, m) # ds'"
    by (cases "preprocessTimeSeries vars n nc") (auto simp: kv m)
  show ?case
    using Cons.IH [OF ds'] preprocess_ts_var_length [OF m] by (simp add: ds)
qed

lemma preprocessDataset_missing_key:
  assumes "w \<noteq> []" and "map_of w v = None"
    and cat: "categorise (space_coord sds) (space_2_coord sds) (data_vars sds)
                = Inr (vars_ts, vars_1d, vars_2d)"
    and v: "v \<in> set (map fst vars_ts @ map fst vars_1d @ map fst vars_2d)"
    and ts: "preprocessTimeSeries vars_ts (length (space_coord sds))
               (length (component_coord sds)) = Inr ds_timeseries"
    and d1: "preprocess1dVariables vars_1d (length (component_coord sds)) = Inr ds_1d_vars"
    and d1_rows: "\<forall>km\<in>set ds_1d_vars. length (snd km) = length (space_coord sds)"
    and d2: "preprocess2dVariables vars_2d (length (component_coord sds)) ''toAffinity''
               = Inr (Matrices2d ds_2d_vars)"
    and d2_shape: "\<forall>kd\<in>set ds_2d_vars. \<forall>cm\<in>set (snd kd).
               has_shape (length (space_coord sds)) (length (space_coord sds)) (snd cm)"
  shows "preprocessDataset sds ''toAffinity'' (Some w) = Inl KeyError"
proof -
  let ?n = "length (space_coord sds)"
  let ?z = "replicate ?n [Fin 0]"
  have vw: "weightings_or_default (Some w) (map fst vars_ts @ map fst vars_1d @ map fst vars_2d) = w"
    using assms(1) by (simp add: weightings_or_default_def)
  have kts: "map fst ds_timeseries = map fst vars_ts"
    using ts by (rule preprocessTimeSeries_keys)
  have k1d: "map fst ds_1d_vars = map fst vars_1d"
    using d1 by (rule preprocess1dVariables_keys)
  have k2d: "map fst ds_2d_vars = map fst vars_2d"
    using d2 by (rule preprocess2dVariables_affinity_keys)
  have "\<forall>km\<in>set ds_timeseries. length (snd km) = length ?z"
    using preprocessTimeSeries_length [OF ts] by simp
  note c_ts = weighted_concat_keys [OF this, of w]
  have "\<forall>km\<in>set ds_1d_vars. length (snd km) = length ?z"
    using d1_rows by simp
  note c_1d = weighted_concat_keys [OF this, of w]
  have "has_shape ?n ?n (np_zeros ?n ?n)"
    by (simp add: has_shape_def np_zeros_def)
  note c_2d = weighted_sum_2d_keys [OF this d2_shape, of w]
  have mode: "''toAffinity'' \<noteq> ''toDissimilarity''" by simp
  show ?thesis
  proof (cases "\<forall>k\<in>set (map fst ds_timeseries). map_of w k \<noteq> None")
    case False
    then have "weighted_concat ds_timeseries w ?z = Inl KeyError" using c_ts by simp
    then show ?thesis
      by (simp add: preprocessDataset_def Let_def cat ts d1 vw)
  next
    case a: True
    then obtain m_ts where m_ts: "weighted_concat ds_timeseries w ?z = Inr m_ts"
      using c_ts by auto
    show ?thesis
    proof (cases "\<forall>k\<in>set (map fst ds_1d_vars). map_of w k \<noteq> None")
      case False
      then have "weighted_concat ds_1d_vars w ?z = Inl KeyError" using c_1d by simp
      then show ?thesis
        by (simp add: preprocessDataset_def Let_def cat ts d1 vw m_ts)
    next
      case b: True
      then obtain m_1d where m_1d: "weighted_concat ds_1d_vars w ?z = Inr m_1d"
        using c_1d by auto
      have "v \<in> set (map fst ds_2d_vars)"
        using v assms(2) a b kts k1d k2d by auto
      then have "\<not> (\<forall>k\<in>set (map fst ds_2d_vars). map_of w k \<noteq> None)"
        using assms(2) by blast
      then have "weighted_sum_2d ds_2d_vars w (np_zeros ?n ?n) = Inl KeyError"
        using c_2d by simp
      then show ?thesis
        by (simp add: preprocessDataset_def Let_def cat ts d1 vw m_ts m_1d d2)
    qed
  qed
qed

lemma weightings_or_default_empty:
  "weightings_or_default (Some []) vars_list = weightings_or_default None vars_list"
  by (simp add: weightings_or_default_def)

text \<open>
  Claim C5, as amended. Let the caller pass a variable-weight mapping that is not empty
  and lacks an observed variable. Then \<^verbatim>\<open>selfDistance\<close> raises KeyError when the region
  indices are in range and the arrays have the shapes the preprocessing gives them, and
  \<^verbatim>\<open>preprocessDataset\<close> in the mode \<^verbatim>\<open>'toAffinity'\<close> raises KeyError when the
  preprocessing of the three categories succeeds with arrays of these shapes. An empty
  mapping is not told apart from an omitted one: both calls behave as with
  \<^verbatim>\<open>None\<close>, where every observed variable has weight 1.
\<close>

theorem nonempty_weightings_missing_key:
  assumes "w \<noteq> []" and "map_of w v = None"
  shows "(v \<in> set (map fst ds_ts @ map fst ds_1d @ map fst ds_2d)
          \<and> 2 \<le> n \<and> 0 \<le> x \<and> x < int n \<and> 0 \<le> y \<and> y < int n
          \<and> (\<forall>km\<in>set (ds_ts @ ds_1d). length (snd km) = n)
          \<and> (\<forall>kd\<in>set ds_2d. \<forall>cv\<in>set (snd kd). length (snd cv) = n * (n - 1) div 2)
          \<longrightarrow> selfDistance ds_ts ds_1d ds_2d n x y (Some w) pw = Inl KeyError)
       \<and> (categorise (space_coord sds) (space_2_coord sds) (data_vars sds)
             = Inr (vars_ts, vars_1d, vars_2d)
          \<and> v \<in> set (map fst vars_ts @ map fst vars_1d @ map fst vars_2d)
          \<and> preprocessTimeSeries vars_ts (length (space_coord sds))
               (length (component_coord sds)) = Inr ds_timeseries
          \<and> preprocess1dVariables vars_1d (length (component_coord sds)) = Inr ds_1d_vars
          \<and> (\<forall>km\<in>set ds_1d_vars. length (snd km) = length (space_coord sds))
          \<and> preprocess2dVariables vars_2d (length (component_coord sds)) ''toAffinity''
               = Inr (Matrices2d ds_2d_vars)
          \<and> (\<forall>kd\<in>set ds_2d_vars. \<forall>cm\<in>set (snd kd).
               has_shape (length (space_coord sds)) (length (space_coord sds)) (snd cm))
          \<longrightarrow> preprocessDataset sds ''toAffinity'' (Some w) = Inl KeyError)
       \<and> selfDistance ds_ts ds_1d ds_2d n x y (Some []) pw
           = selfDistance ds_ts ds_1d ds_2d n x y None pw
       \<and> preprocessDataset sds handle_mode (Some []) = preprocessDataset sds handle_mode None"
proof (intro conjI impI)
  show "selfDistance ds_ts ds_1d ds_2d n x y (Some []) pw
           = selfDistance ds_ts ds_1d ds_2d n x y None pw"
    by (simp only: selfDistance_def weightings_or_default_empty)
  show "preprocessDataset sds handle_mode (Some []) = preprocessDataset sds handle_mode None"
    by (simp only: preprocessDataset_def weightings_or_default_empty)
next
  assume "v \<in> set (map fst ds_ts @ map fst ds_1d @ map fst ds_2d)
          \<and> 2 \<le> n \<and> 0 \<le> x \<and> x < int n \<and> 0 \<le> y \<and> y < int n
          \<and> (\<forall>km\<in>set (ds_ts @ ds_1d). length (snd km) = n)
          \<and> (\<forall>kd\<in>set ds_2d. \<forall>cv\<in>set (snd kd). length (snd cv) = n * (n - 1) div 2)"
  then show "selfDistance ds_ts ds_1d ds_2d n x y (Some w) pw = Inl KeyError"
    using selfDistance_missing_key [OF assms(1) _ assms(2)] by blast
next
  assume "categorise (space_coord sds) (space_2_coord sds) (data_vars sds)
             = Inr (vars_ts, vars_1d, vars_2d)
          \<and> v \<in> set (map fst vars_ts @ map fst vars_1d @ map fst vars_2d)
          \<and> preprocessTimeSeries vars_ts (length (space_coord sds))
               (length (component_coord sds)) = Inr ds_timeseries
          \<and> preprocess1dVariables vars_1d (length (component_coord sds)) = Inr ds_1d_vars
          \<and> (\<forall>km\<in>set ds_1d_vars. length (snd km) = length (space_coord sds))
          \<and> preprocess2dVariables vars_2d (length (component_coord sds)) ''toAffinity''
               = Inr (Matrices2d ds_2d_vars)
          \<and> (\<forall>kd\<in>set ds_2d_vars. \<forall>cm\<in>set (snd kd).
               has_shape (length (space_coord sds)) (length (space_coord sds)) (snd cm))"
  then show "preprocessDataset sds ''toAffinity'' (Some w) = Inl KeyError"
    using preprocessDataset_missing_key [OF assms] by blast
qed

lemmas eval_dataset_defs =
  preprocessDataset_def preprocess2dVariables_def preprocess_1d_var_def preprocess_ts_var_def
  valid_component_ids_def nanmean_def nanmin_def nanmax_def MinMaxScaler_fit_transform_def
  reorder_columns_def matrix_MinMaxScaler_def np_max_def np_min_def fmax_def fmin_def feq_def
  fsub_def py_sum_def py_index_def np_zeros_def weightings_or_default_def dict_fromkeys_1_def
  np_concatenate_axis1_def scale_matrix_def matrix_iadd_def has_shape_def Let_def

theorem nonempty_weightings_missing_key_witness:
  "selfDistance [] [(''cap'', [[Fin 0], [Fin 1]])] [(''pipe'', [(0, [Fin 0])])] 2 0 1
      (Some [(''cap'', 2)]) None = Inl KeyError
   \<and> preprocessDataset
        \<lparr>component_coord = [''c1''], space_coord = [''a'', ''b''], space_2_coord = [''a'', ''b''],
         data_vars = [(''cap'', Dims_1d [[Fin 0, Fin 1]]),
                      (''pipe'', Dims_2d [[[Fin 0, Fin 1], [Fin 1, Fin 0]]])]\<rparr>
        ''toAffinity'' (Some [(''cap'', 2)]) = Inl KeyError"
proof -
  let ?sds = "\<lparr>component_coord = [''c1''], space_coord = [''a'', ''b''],
               space_2_coord = [''a'', ''b''],
               data_vars = [(''cap'', Dims_1d [[Fin 0, Fin 1]]),
                            (''pipe'', Dims_2d [[[Fin 0, Fin 1], [Fin 1, Fin 0]]])]\<rparr>"
  have w: "[(''cap'', 2::real)] \<noteq> []" and v: "map_of [(''cap'', 2::real)] ''pipe'' = None"
    by simp_all
  have cat: "categorise (space_coord ?sds) (space_2_coord ?sds) (data_vars ?sds)
      = Inr ([], [(''cap'', [[Fin 0, Fin 1]])],
             [(''pipe'', ([[[Fin 0, Fin 1], [Fin 1, Fin 0]]], [''a'', ''b''], [''a'', ''b'']))])"
    by simp
  have d1: "preprocess1dVariables [(''cap'', [[Fin 0, Fin 1]])] (length (component_coord ?sds))
      = Inr [(''cap'', [[Fin 0], [Fin 1]])]"
    by (simp add: eval_dataset_defs upt_rec)
  have d2: "preprocess2dVariables
        [(''pipe'', ([[[Fin 0, Fin 1], [Fin 1, Fin 0]]], [''a'', ''b''], [''a'', ''b'']))]
        (length (component_coord ?sds)) ''toAffinity''
      = Inr (Matrices2d [(''pipe'', [(0, [[Fin 0, Fin 1], [Fin 1, Fin 0]])])])"
    by (simp add: eval_dataset_defs upt_rec)
  show ?thesis
    using nonempty_weightings_missing_key [OF w v,
        of "[]" "[(''cap'', [[Fin 0], [Fin 1]])]" "[(''pipe'', [(0, [Fin 0])])]" 2 0 1 None
           ?sds "[]" "[(''cap'', [[Fin 0, Fin 1]])]"
           "[(''pipe'', ([[[Fin 0, Fin 1], [Fin 1, Fin 0]]], [''a'', ''b''], [''a'', ''b'']))]"
           "[]" "[(''cap'', [[Fin 0], [Fin 1]])]"
           "[(''pipe'', [(0, [[Fin 0, Fin 1], [Fin 1, Fin 0]])])]"]
      cat d1 d2
    by (simp add: has_shape_def)
qed

text \<open>
  Claim C5 as stated fails for the empty mapping: the variable \<^verbatim>\<open>cap\<close> is observed
  and absent from it, and both calls return a value computed with weight 1.
\<close>

theorem empty_weightings_default_to_one:
  "selfDistance [] [(''cap'', [[Fin 0], [Fin 1]])] [] 2 0 1 (Some []) None = Inr (Fin 1)
   \<and> preprocessDataset
        \<lparr>component_coord = [''c1''], space_coord = [''a'', ''b''], space_2_coord = [''a'', ''b''],
         data_vars = [(''cap'', Dims_1d [[Fin 0, Fin 1]])]\<rparr>
        ''toAffinity'' (Some [])
       = Inr (Affinity [[], []] [[Fin 0], [Fin 1]] [[Fin 0, Fin 0], [Fin 0, Fin 0]])"
  by (simp add: eval_dataset_defs selfDistance_def region_index_x_y_def upt_rec)

section \<open>Properties of the scalar preprocessor\<close>














section \<open>The condensed index\<close>

lemma triangle_rows_length:
  assumes "x \<le> n" and "\<forall>i<n. length (m ! i) = n"
  shows "2 * length (concat (map (\<lambda>i. drop (Suc i) (m ! i)) [0..<x])) + x * (x + 1) = 2 * x * n"
  using assms(1)
proof (induction x)
  case 0
  then show ?case by simp
next
  case (Suc x)
  then have x: "x < n" by simp
  then have l: "length (m ! x) = n" using assms(2) by simp
  have ih: "2 * length (concat (map (\<lambda>i. drop (Suc i) (m ! i)) [0..<x])) + x * (x + 1)
              = 2 * x * n"
    using Suc by simp
  have "2 * length (concat (map (\<lambda>i. drop (Suc i) (m ! i)) [0..<Suc x])) + Suc x * (Suc x + 1)
          = (2 * length (concat (map (\<lambda>i. drop (Suc i) (m ! i)) [0..<x])) + x * (x + 1))
            + 2 * (n - Suc x) + 2 * Suc x"
    by (simp add: l)
  also have "\<dots> = 2 * x * n + 2 * n"
    using ih x by simp
  finally show ?case by simp
qed

lemma triangle_rows_length_eq:
  assumes "x \<le> n" and "\<forall>i<n. length (m ! i) = n"
  shows "length (concat (map (\<lambda>i. drop (Suc i) (m ! i)) [0..<x])) = x * n - x * (x + 1) div 2"
proof -
  have "even (x * (x + 1))" by simp
  then have "2 * (x * (x + 1) div 2) = x * (x + 1)" by simp
  then show ?thesis
    using triangle_rows_length [OF assms] by linarith
qed

lemma squareform_nth:
  assumes "has_shape n n m" and "x < y" and "y < n"
  shows "\<exists>v. squareform m = Inr v \<and> length v = n * (n - 1) div 2
             \<and> v ! condensed_position n x y = m ! x ! y"
proof -
  let ?f = "\<lambda>i. drop (Suc i) (m ! i)"
  have len: "length m = n" and rows: "\<forall>i<n. length (m ! i) = n"
    using assms(1) by (auto simp: has_shape_def)
  have sq: "squareform m = Inr (concat (map ?f [0..<n]))"
    using assms(1) by (auto simp: squareform_def has_shape_def list_ex_iff)
  have x: "x < n" using assms(2,3) by simp
  have "[0..<n] = [0..<x] @ [x..<n]"
    using x upt_add_eq_append [of 0 x "n - x"] by simp
  then have split: "[0..<n] = [0..<x] @ x # [Suc x..<n]"
    using x by (simp add: upt_conv_Cons)
  have c: "concat (map ?f [0..<n])
             = concat (map ?f [0..<x]) @ ?f x @ concat (map ?f [Suc x..<n])"
    by (subst split) simp
  have l0: "length (concat (map ?f [0..<x])) = x * n - x * (x + 1) div 2"
    using triangle_rows_length_eq [of x n m] x rows by simp
  have lx: "y - x - 1 < length (?f x)"
    using rows x assms(2,3) by simp
  have "concat (map ?f [0..<n]) ! condensed_position n x y = ?f x ! (y - x - 1)"
    unfolding c condensed_position_def l0 [symmetric]
    using lx by (simp add: nth_append)
  also have "\<dots> = m ! x ! y"
    using rows x assms(2,3) by simp
  finally have nth: "concat (map ?f [0..<n]) ! condensed_position n x y = m ! x ! y" .
  have "length (concat (map ?f [0..<n])) = n * n - n * (n + 1) div 2"
    using triangle_rows_length_eq [of n n m] rows by simp
  also have "\<dots> = n * (n - 1) div 2"
  proof -
    have "2 * (n * (n + 1) div 2) = n * (n + 1)" by simp
    moreover have "2 * (n * (n - 1) div 2) = n * (n - 1)"
      by (cases "even n") simp_all
    moreover have "n * (n - 1) + n * (n + 1) = 2 * (n * n)"
      by (cases n) (simp_all add: algebra_simps)
    ultimately show ?thesis by linarith
  qed
  finally show ?thesis using sq nth by simp
qed

lemma region_index_x_y_matches_iff:
  assumes "x < y" and "y < n"
  shows "(region_index_x_y n (int x) (int y) = int (condensed_position n x y)) = (x \<le> 1)"
proof -
  have e: "2 * (x * (x + 1) div 2) = x * (x + 1)" by simp
  have le: "x * (x + 1) div 2 \<le> x * n"
  proof -
    have "x + 1 \<le> n" using assms by simp
    then have "x * (x + 1) \<le> x * n" by (intro mult_le_mono2)
    then show ?thesis by linarith
  qed
  have p: "2 * int (condensed_position n x y)
             = 2 * int x * int n - int x * (int x + 1) + 2 * (int y - int x - 1)"
  proof -
    have "int (condensed_position n x y)
            = int x * int n - int (x * (x + 1) div 2) + (int y - int x - 1)"
      using le assms by (simp add: condensed_position_def of_nat_diff)
    moreover have "2 * int (x * (x + 1) div 2) = int x * (int x + 1)"
    proof -
      have "int (2 * (x * (x + 1) div 2)) = int (x * (x + 1))" using e by presburger
      also have "\<dots> = int x * (int x + 1)" by (simp add: algebra_simps)
      finally show ?thesis by (simp only: of_nat_mult of_nat_numeral)
    qed
    ultimately show ?thesis by (simp add: algebra_simps)
  qed
  have r: "2 * region_index_x_y n (int x) (int y)
             = 2 * int x * int n - 2 * int x * int x + 2 * (int y - int x - 1)"
    by (simp add: region_index_x_y_def algebra_simps)
  define a where "a = region_index_x_y n (int x) (int y)"
  define b where "b = int (condensed_position n x y)"
  define q where "q = int x * int x"
  have p': "2 * b = 2 * int x * int n - q - int x + 2 * (int y - int x - 1)"
    using p by (simp add: b_def q_def algebra_simps)
  have r': "2 * a = 2 * int x * int n - 2 * q + 2 * (int y - int x - 1)"
    using r by (simp add: a_def q_def)
  have "(a = b) = (q = int x)"
    using p' r' by linarith
  also have "\<dots> = (x \<le> 1)"
  proof (cases "x \<le> 1")
    case True
    then have "x = 0 \<or> x = 1" by linarith
    then show ?thesis by (auto simp: q_def)
  next
    case False
    then have "1 < int x" by simp
    then have "int x * 1 < int x * int x"
      by (intro mult_strict_left_mono) simp_all
    then show ?thesis using False by (simp add: q_def)
  qed
  finally show ?thesis by (simp add: a_def b_def)
qed

section \<open>The distance matrix is returned\<close>

text \<open>
  With the default weights and arrays of the shapes the preprocessing produces (one row
  per region, condensed vectors of n (n - 1) / 2 entries) every lookup is in range, so
  \<^verbatim>\<open>selfDistanceMatrix\<close> does return a matrix.
\<close>

lemma map_of_dict_fromkeys_1:
  "k \<in> set ks \<Longrightarrow> map_of (dict_fromkeys_1 ks) k = Some 1"
  by (induction ks) (auto simp: dict_fromkeys_1_def)

lemma selfDistance_returns:
  assumes "2 \<le> n" and "0 \<le> x" and "x < int n" and "0 \<le> y" and "y < int n"
    and "\<forall>km\<in>set (ds_ts @ ds_1d). length (snd km) = n"
    and "\<forall>kd\<in>set ds_2d. \<forall>cv\<in>set (snd kd). length (snd cv) = n * (n - 1) div 2"
  shows "\<exists>d. selfDistance ds_ts ds_1d ds_2d n x y None None = Inr d"
proof -
  let ?ks = "map fst ds_ts @ map fst ds_1d @ map fst ds_2d"
  let ?w = "dict_fromkeys_1 ?ks"
  let ?ixy = "region_index_x_y n x y"
  have vw: "weightings_or_default None ?ks = ?w"
    by (simp add: weightings_or_default_def)
  have all: "\<forall>k\<in>set ?ks. map_of ?w k \<noteq> None"
    using map_of_dict_fromkeys_1 [of _ ?ks] by simp
  have "if \<forall>k\<in>set (map fst ds_ts). map_of ?w k \<noteq> None
         then \<exists>r. distance_rows ds_ts ?w x y (Fin 0) = Inr r
         else distance_rows ds_ts ?w x y (Fin 0) = Inl KeyError"
    using assms(2-6) by (intro distance_rows_keys [where n = n]) simp_all
  then obtain r1 where r1: "distance_rows ds_ts ?w x y (Fin 0) = Inr r1"
    using all by (auto split: if_splits)
  have "if \<forall>k\<in>set (map fst ds_1d). map_of ?w k \<noteq> None
         then \<exists>r. distance_rows ds_1d ?w x y (Fin 0) = Inr r
         else distance_rows ds_1d ?w x y (Fin 0) = Inl KeyError"
    using assms(2-6) by (intro distance_rows_keys [where n = n]) simp_all
  then obtain r2 where r2: "distance_rows ds_1d ?w x y (Fin 0) = Inr r2"
    using all by (auto split: if_splits)
  have rng: "\<forall>kd\<in>set ds_2d. \<forall>cv\<in>set (snd kd).
               - int (length (snd cv)) \<le> ?ixy \<and> ?ixy < int (length (snd cv))"
    using region_index_x_y_range [OF assms(1-5)] assms(7) by simp
  have "if \<forall>k\<in>set (map fst ds_2d). map_of ?w k \<noteq> None
         then \<exists>r. distance_2d_vars ds_2d ?w ?ixy (Fin 0) = Inr r
         else distance_2d_vars ds_2d ?w ?ixy (Fin 0) = Inl KeyError"
    using rng by (rule distance_2d_vars_keys)
  then obtain r3 where r3: "distance_2d_vars ds_2d ?w ?ixy (Fin 0) = Inr r3"
    using all by (auto split: if_splits)
  show ?thesis
    by (simp add: selfDistance_def vw Let_def r1 r2 r3 py_index_def)
qed

lemma distMatrix_row_returns:
  assumes "\<forall>km\<in>set (ds_ts @ ds_1d). length (snd km) = n"
    and "\<forall>kd\<in>set ds_2d. \<forall>cv\<in>set (snd kd). length (snd cv) = n * (n - 1) div 2"
    and "\<forall>j\<in>set js. i < j \<and> j < n"
  shows "\<exists>r. distMatrix_row ds_ts ds_1d ds_2d n None i js d = Inr r"
  using assms(3)
proof (induction js arbitrary: d)
  case Nil
  then show ?case by simp
next
  case (Cons j js)
  then have j: "i < j" "j < n" by simp_all
  then have "2 \<le> n" by simp
  then obtain v where "selfDistance ds_ts ds_1d ds_2d n (int i) (int j) None None = Inr v"
    using selfDistance_returns [of n "int i" "int j" ds_ts ds_1d ds_2d] j assms(1,2) by auto
  then show ?case using Cons by simp
qed

lemma distMatrix_rows_returns:
  assumes "\<forall>km\<in>set (ds_ts @ ds_1d). length (snd km) = n"
    and "\<forall>kd\<in>set ds_2d. \<forall>cv\<in>set (snd kd). length (snd cv) = n * (n - 1) div 2"
  shows "\<exists>r. distMatrix_rows ds_ts ds_1d ds_2d n None is d = Inr r"
proof (induction "is" arbitrary: d)
  case Nil
  then show ?case by simp
next
  case (Cons i "is")
  have "\<forall>j\<in>set [Suc i..<n]. i < j \<and> j < n" by auto
  then obtain r where "distMatrix_row ds_ts ds_1d ds_2d n None i [Suc i..<n] d = Inr r"
    using distMatrix_row_returns [OF assms] by blast
  then show ?case using Cons by simp
qed

lemma selfDistanceMatrix_returns:
  assumes "\<forall>km\<in>set (ds_ts @ ds_1d). length (snd km) = n"
    and "\<forall>kd\<in>set ds_2d. \<forall>cv\<in>set (snd kd). length (snd cv) = n * (n - 1) div 2"
  shows "\<exists>d. selfDistanceMatrix ds_ts ds_1d ds_2d n None = Inr d"
proof -
  obtain u where "distMatrix_rows ds_ts ds_1d ds_2d n None [0..<n] (np_zeros n n) = Inr u"
    using distMatrix_rows_returns [OF assms] by blast
  then show ?thesis by (simp add: selfDistanceMatrix_def)
qed

end
